theory Spec2Isabelle
  imports Complex_Main "HOL-Library.Multiset" "HOL-Library.Char_ord" "HOL-Library.List_Lexorder"
begin

section \<open>JavaScript values used by the request handlers\<close>

text \<open>
  A JavaScript \<open>number\<close> as the handlers use it: only \<open>isNaN\<close>, the comparisons
  \<open><\<close> and \<open>>\<close>, truthiness (\<open>x || d\<close>), and the one expression \<open>(page - 1) * limit\<close>.
  A finite number is kept as the exact rational that the decimal text denotes; the rounding
  to a binary double is not modelled, and \<open>-0\<close> is identified with \<open>0\<close> (they
  behave alike under every operation used here).
\<close>

datatype jsnum = NaN | NegInf | Fin rat | PosInf

definition isNaN :: "jsnum \<Rightarrow> bool" where
  "isNaN x = (x = NaN)"

fun js_lt :: "jsnum \<Rightarrow> jsnum \<Rightarrow> bool" where
  "js_lt NaN y = False"
| "js_lt x NaN = False"
| "js_lt NegInf NegInf = False"
| "js_lt NegInf y = True"
| "js_lt (Fin a) NegInf = False"
| "js_lt (Fin a) (Fin b) = (a < b)"
| "js_lt (Fin a) PosInf = True"
| "js_lt PosInf y = False"

definition js_gt :: "jsnum \<Rightarrow> jsnum \<Rightarrow> bool" where
  "js_gt x y = js_lt y x"

text \<open>\<open>x || d\<close> on numbers: \<open>NaN\<close> and \<open>0\<close> are falsy.\<close>

definition js_or :: "jsnum \<Rightarrow> jsnum \<Rightarrow> jsnum" where
  "js_or x d = (if x = NaN \<or> x = Fin 0 then d else x)"

fun js_neg :: "jsnum \<Rightarrow> jsnum" where
  "js_neg NaN = NaN"
| "js_neg NegInf = PosInf"
| "js_neg (Fin a) = Fin (- a)"
| "js_neg PosInf = NegInf"

fun js_sub :: "jsnum \<Rightarrow> jsnum \<Rightarrow> jsnum" where
  "js_sub NaN y = NaN"
| "js_sub x NaN = NaN"
| "js_sub (Fin a) (Fin b) = Fin (a - b)"
| "js_sub (Fin a) y = js_neg y"
| "js_sub PosInf PosInf = NaN"
| "js_sub NegInf NegInf = NaN"
| "js_sub x y = x"

fun js_mul :: "jsnum \<Rightarrow> jsnum \<Rightarrow> jsnum" where
  "js_mul NaN y = NaN"
| "js_mul x NaN = NaN"
| "js_mul (Fin a) (Fin b) = Fin (a * b)"
| "js_mul (Fin a) y = (if a = 0 then NaN else if a < 0 then js_neg y else y)"
| "js_mul x (Fin b) = (if b = 0 then NaN else if b < 0 then js_neg x else x)"
| "js_mul x y = (if x = y then PosInf else NegInf)"

subsection \<open>\<open>parseInt\<close> and \<open>parseFloat\<close>\<close>

text \<open>
  The two built-ins on byte strings. White space is the ASCII white space; the digits are
  read exactly (no rounding, no overflow to \<open>Infinity\<close>).
\<close>

definition isWhiteSpace :: "char \<Rightarrow> bool" where
  "isWhiteSpace c = (c \<in> set [CHR 0x09, CHR 0x0A, CHR 0x0B, CHR 0x0C, CHR 0x0D, CHR 0x20])"

definition trim :: "string \<Rightarrow> string" where
  "trim s = rev (dropWhile isWhiteSpace (rev (dropWhile isWhiteSpace s)))"

definition digitValue :: "nat \<Rightarrow> char \<Rightarrow> nat option" where
  "digitValue R c =
     (let n = (of_char c :: nat);
          v = (if 48 \<le> n \<and> n \<le> 57 then Some (n - 48)
               else if 97 \<le> n \<and> n \<le> 122 then Some (n - 87)
               else if 65 \<le> n \<and> n \<le> 90 then Some (n - 55)
               else None)
      in case v of None \<Rightarrow> None | Some d \<Rightarrow> if d < R then Some d else None)"

definition isDigit :: "nat \<Rightarrow> char \<Rightarrow> bool" where
  "isDigit R c = (digitValue R c \<noteq> None)"

definition digitsValue :: "nat \<Rightarrow> string \<Rightarrow> nat" where
  "digitsValue R ds = foldl (\<lambda>acc c. acc * R + (case digitValue R c of Some d \<Rightarrow> d | None \<Rightarrow> 0)) 0 ds"

definition stripSign :: "string \<Rightarrow> bool \<times> string" where
  "stripSign S =
     (case S of
        [] \<Rightarrow> (False, [])
      | c # rest \<Rightarrow>
          if c = CHR ''-'' then (True, rest)
          else if c = CHR ''+'' then (False, rest)
          else (False, S))"

definition signed :: "bool \<Rightarrow> rat \<Rightarrow> rat" where
  "signed negative v = (if negative then - v else v)"

text \<open>\<open>parseInt(string)\<close> with no radix argument: radix 10, or 16 after a \<open>0x\<close> prefix.\<close>

definition parseInt :: "string \<Rightarrow> jsnum" where
  "parseInt inputString =
     (let (negative, S) = stripSign (dropWhile isWhiteSpace inputString);
          hex = (take 2 S = ''0x'' \<or> take 2 S = ''0X'');
          R = (if hex then 16 else 10);
          Z = takeWhile (isDigit R) (if hex then drop 2 S else S)
      in if Z = [] then NaN else Fin (signed negative (of_nat (digitsValue R Z))))"

definition exponentPart :: "string \<Rightarrow> int" where
  "exponentPart S =
     (case S of
        [] \<Rightarrow> 0
      | c # rest \<Rightarrow>
          if c = CHR ''e'' \<or> c = CHR ''E'' then
            (let (negative, S') = stripSign rest;
                 ds = takeWhile (isDigit 10) S'
             in if ds = [] then 0
                else if negative then - int (digitsValue 10 ds) else int (digitsValue 10 ds))
          else 0)"

definition scale10 :: "rat \<Rightarrow> int \<Rightarrow> rat" where
  "scale10 m e = (if 0 \<le> e then m * 10 ^ nat e else m / 10 ^ nat (- e))"

text \<open>\<open>parseFloat(string)\<close>: the longest prefix that is a decimal literal.\<close>

definition parseFloat :: "string \<Rightarrow> jsnum" where
  "parseFloat inputString =
     (let (negative, S) = stripSign (dropWhile isWhiteSpace inputString)
      in if take 8 S = ''Infinity'' then (if negative then NegInf else PosInf)
         else
           (let ip = takeWhile (isDigit 10) S;
                r1 = dropWhile (isDigit 10) S;
                dot = (r1 \<noteq> [] \<and> hd r1 = CHR ''.'');
                fp = (if dot then takeWhile (isDigit 10) (tl r1) else []);
                r2 = (if dot then dropWhile (isDigit 10) (tl r1) else r1)
            in if ip = [] \<and> fp = [] then NaN
               else Fin (signed negative
                      (scale10 (of_nat (digitsValue 10 (ip @ fp)) / 10 ^ length fp)
                               (exponentPart r2)))))"

text \<open>\<open>parseInt(req.query.x as string)\<close> where the parameter may be absent:
  \<open>parseInt(undefined)\<close> reads the text \<open>undefined\<close> and is \<open>NaN\<close>.\<close>

definition parseInt_q :: "string option \<Rightarrow> jsnum" where
  "parseInt_q v = (case v of None \<Rightarrow> NaN | Some s \<Rightarrow> parseInt s)"

text \<open>\<open>s || d\<close> on an optional string: \<open>undefined\<close> and the empty string are falsy.\<close>

definition str_or :: "string option \<Rightarrow> string \<Rightarrow> string" where
  "str_or v d = (case v of None \<Rightarrow> d | Some s \<Rightarrow> if s = [] then d else s)"

text \<open>\<open>String.prototype.split\<close> on a one-character separator.\<close>

fun split_on :: "char \<Rightarrow> string \<Rightarrow> string list" where
  "split_on sep [] = [[]]"
| "split_on sep (c # cs) =
     (if c = sep then [] # split_on sep cs
      else (case split_on sep cs of
              [] \<Rightarrow> [[c]]
            | w # ws \<Rightarrow> (c # w) # ws))"

section \<open>The store\<close>

text \<open>
  The three tables the storage layer reads and writes. A table is the list of its rows; the
  order of the list has no meaning to a query (see \<open>unordered\<close> below). Ids are opaque
  strings, the decimal \<open>price\<close> column is an exact rational, timestamps are counted in
  ticks.
\<close>

record product =
  p_id :: string
  p_name :: string
  p_description :: "string option"
  p_price :: rat
  p_stockQuantity :: int
  p_imageUrl :: "string option"
  p_createdAt :: nat
  p_updatedAt :: nat

record category =
  c_id :: string
  c_name :: string
  c_createdAt :: nat

record productCategory =
  pc_productId :: string
  pc_categoryId :: string

record db =
  products :: "product list"
  categories :: "category list"
  productCategories :: "productCategory list"

text \<open>
  Modelled from the spec: the table declarations (the shared schema module) are not among the
  sources, so the constraints of the association table are a parameter of every write.
  The spec (sections 3 and 6) gives composite uniqueness on (productId, categoryId) and
  foreign keys with cascade on delete; \<open>spec_schema\<close> is that choice. The product id is
  the primary key of the product table throughout.
\<close>

record constraints =
  uniquePair :: bool
  foreignKeys :: bool

definition spec_schema :: constraints where
  "spec_schema = \<lparr>uniquePair = True, foreignKeys = True\<rparr>"

datatype store_error =
    UniqueViolation
  | ForeignKeyViolation
  | InvalidRowCount
  | UndefinedSortColumn

text \<open>The rows of a query without \<open>ORDER BY\<close> come back in an order the store chooses.\<close>

definition unordered :: "'a list \<Rightarrow> 'a list \<Rightarrow> bool" where
  "unordered rows out = (mset out = mset rows)"

subsection \<open>Predicates of the product listing\<close>

definition lower :: "char \<Rightarrow> char" where
  "lower c = (let n = (of_char c :: nat) in if 65 \<le> n \<and> n \<le> 90 then char_of (n + 32) else c)"

text \<open>\<open>LIKE\<close>: \<open>%\<close> matches any run of characters, \<open>_\<close> any one character, a
  backslash quotes the character after it.\<close>

fun like_match :: "string \<Rightarrow> string \<Rightarrow> bool" where
  "like_match [] t = (t = [])"
| "like_match (c # pat) t =
     (if c = CHR ''%'' then
        (like_match pat t \<or> (case t of [] \<Rightarrow> False | x # t' \<Rightarrow> like_match (c # pat) t'))
      else if c = CHR ''_'' then
        (case t of [] \<Rightarrow> False | x # t' \<Rightarrow> like_match pat t')
      else if c = CHR 0x5C then
        (case pat of
           [] \<Rightarrow> False
         | q # pat' \<Rightarrow> (case t of [] \<Rightarrow> False | x # t' \<Rightarrow> x = q \<and> like_match pat' t'))
      else
        (case t of [] \<Rightarrow> False | x # t' \<Rightarrow> x = c \<and> like_match pat t'))"

definition ilike :: "string \<Rightarrow> string \<Rightarrow> bool" where
  "ilike txt pat = like_match (map lower pat) (map lower txt)"

text \<open>A numeric column against a number parameter, in the store's ordering of numeric
  values: \<open>-Infinity\<close> below, \<open>Infinity\<close> above every finite value, \<open>NaN\<close> above all.\<close>

fun sql_ge :: "rat \<Rightarrow> jsnum \<Rightarrow> bool" where
  "sql_ge x NaN = False"
| "sql_ge x NegInf = True"
| "sql_ge x (Fin r) = (r \<le> x)"
| "sql_ge x PosInf = False"

fun sql_le :: "rat \<Rightarrow> jsnum \<Rightarrow> bool" where
  "sql_le x NaN = True"
| "sql_le x NegInf = False"
| "sql_le x (Fin r) = (x \<le> r)"
| "sql_le x PosInf = True"

record getProducts_params =
  page :: "jsnum option"
  limit :: "jsnum option"
  search :: "string option"
  categoryId :: "string option"
  categoryIds :: "string list option"
  minPrice :: "jsnum option"
  maxPrice :: "jsnum option"
  minStock :: "jsnum option"
  maxStock :: "jsnum option"
  sortBy :: "string option"
  sortOrder :: "string option"

text \<open>The \<open>conditions\<close> array before the category filter: search, price range, stock range.\<close>

definition product_conditions :: "getProducts_params \<Rightarrow> product \<Rightarrow> bool" where
  "product_conditions params p =
     ((case search params of
         None \<Rightarrow> True
       | Some s \<Rightarrow> if s = [] then True else ilike (p_name p) (''%'' @ s @ ''%''))
      \<and> (case minPrice params of None \<Rightarrow> True | Some v \<Rightarrow> sql_ge (p_price p) v)
      \<and> (case maxPrice params of None \<Rightarrow> True | Some v \<Rightarrow> sql_le (p_price p) v)
      \<and> (case minStock params of None \<Rightarrow> True | Some v \<Rightarrow> sql_ge (of_int (p_stockQuantity p)) v)
      \<and> (case maxStock params of None \<Rightarrow> True | Some v \<Rightarrow> sql_le (of_int (p_stockQuantity p)) v))"

text \<open>\<open>categoryIds?.length ? categoryIds : (categoryId ? [categoryId] : null)\<close>\<close>

definition categoriesToFilter :: "getProducts_params \<Rightarrow> string list option" where
  "categoriesToFilter params =
     (case categoryIds params of
        Some (c # cs) \<Rightarrow> Some (c # cs)
      | _ \<Rightarrow> (case categoryId params of
                None \<Rightarrow> None
              | Some c \<Rightarrow> if c = [] then None else Some [c]))"

text \<open>The rows of \<open>query\<close> and of \<open>countQuery\<close> before ordering: the product table, inner
  joined with the association table when a category filter is present, restricted by the
  conjunction of the conditions, projected on the product columns.\<close>

definition query_rows :: "db \<Rightarrow> getProducts_params \<Rightarrow> product list" where
  "query_rows db params =
     (case categoriesToFilter params of
        None \<Rightarrow> filter (product_conditions params) (products db)
      | Some cats \<Rightarrow>
          if cats = [] then filter (product_conditions params) (products db)
          else map fst
                 (filter (\<lambda>(p, pc). product_conditions params p \<and> pc_categoryId pc \<in> set cats)
                    [(p, pc). p \<leftarrow> products db, pc \<leftarrow> productCategories db,
                              p_id p = pc_productId pc]))"

text \<open>\<open>count(distinct products.id)\<close> over the same rows.\<close>

definition count_distinct_id :: "product list \<Rightarrow> nat" where
  "count_distinct_id rows = length (remdups (map p_id rows))"

subsection \<open>Ordering and the page window\<close>

datatype column = Col_name | Col_price | Col_stockQuantity | Col_createdAt

text \<open>The lookup \<open>{name: .., price: .., stock: .., createdAt: ..}[sortBy]\<close>; any other key
  gives no column.\<close>

definition sortColumn :: "string \<Rightarrow> column option" where
  "sortColumn key =
     (if key = ''name'' then Some Col_name
      else if key = ''price'' then Some Col_price
      else if key = ''stock'' then Some Col_stockQuantity
      else if key = ''createdAt'' then Some Col_createdAt
      else None)"

fun col_le :: "column \<Rightarrow> product \<Rightarrow> product \<Rightarrow> bool" where
  "col_le Col_name p q = (p_name p \<le> p_name q)"
| "col_le Col_price p q = (p_price p \<le> p_price q)"
| "col_le Col_stockQuantity p q = (p_stockQuantity p \<le> p_stockQuantity q)"
| "col_le Col_createdAt p q = (p_createdAt p \<le> p_createdAt q)"

definition dir_le :: "column \<Rightarrow> bool \<Rightarrow> product \<Rightarrow> product \<Rightarrow> bool" where
  "dir_le col ascending p q = (if ascending then col_le col p q else col_le col q p)"

text \<open>\<open>ORDER BY col ASC|DESC\<close> and nothing else: any arrangement of the rows that is
  sorted on that one column is a result.\<close>

definition order_by :: "column \<Rightarrow> bool \<Rightarrow> product list \<Rightarrow> product list \<Rightarrow> bool" where
  "order_by col ascending rows out =
     (mset out = mset rows \<and> sorted_wrt (dir_le col ascending) out)"

text \<open>A \<open>LIMIT\<close> or \<open>OFFSET\<close> parameter must be a non-negative whole number.\<close>

definition row_count :: "jsnum \<Rightarrow> store_error + nat" where
  "row_count x =
     (case x of
        Fin r \<Rightarrow> if 0 \<le> r \<and> of_int \<lfloor>r\<rfloor> = r then Inr (nat \<lfloor>r\<rfloor>) else Inl InvalidRowCount
      | _ \<Rightarrow> Inl InvalidRowCount)"

section \<open>The storage layer: reads\<close>

record productWithCategories =
  pwc_product :: product
  pwc_categories :: "category list"

record products_result =
  res_products :: "productWithCategories list"
  res_total :: nat

text \<open>The categories of one product: \<open>categories\<close> inner joined with the association
  table on the category id, restricted to the product's rows.\<close>

definition productCats_rows :: "db \<Rightarrow> string \<Rightarrow> category list" where
  "productCats_rows db pid =
     [c. c \<leftarrow> categories db, pc \<leftarrow> productCategories db,
         c_id c = pc_categoryId pc, pc_productId pc = pid]"

text \<open>\<open>{...product, categories: productCats}\<close>\<close>

definition attached :: "db \<Rightarrow> product \<Rightarrow> productWithCategories \<Rightarrow> bool" where
  "attached db p out =
     (pwc_product out = p \<and> unordered (productCats_rows db (p_id p)) (pwc_categories out))"

text \<open>A destructuring default, \<open>{ page = 1 } = params\<close>.\<close>

definition or_default :: "'a option \<Rightarrow> 'a \<Rightarrow> 'a" where
  "or_default v d = (case v of None \<Rightarrow> d | Some x \<Rightarrow> x)"

text \<open>
  \<open>DatabaseStorage.getProducts\<close>, as the relation between the store, the parameters and
  every outcome the two queries and the attachment can have. Ordering on a key that names
  no column, and a window that is not a pair of row counts, are failed queries.
\<close>

definition getProducts :: "db \<Rightarrow> getProducts_params \<Rightarrow> store_error + products_result \<Rightarrow> bool" where
  "getProducts db params out =
     (let page' = or_default (page params) (Fin 1);
          limit' = or_default (limit params) (Fin 10);
          sortBy' = or_default (sortBy params) ''createdAt'';
          sortOrder' = or_default (sortOrder params) ''desc'';
          offset = js_mul (js_sub page' (Fin 1)) limit';
          rows = query_rows db params
      in case sortColumn sortBy' of
           None \<Rightarrow> out = Inl UndefinedSortColumn
         | Some col \<Rightarrow>
             (case row_count limit' of
                Inl e \<Rightarrow> out = Inl e
              | Inr l \<Rightarrow>
                  (case row_count offset of
                     Inl e \<Rightarrow> out = Inl e
                   | Inr off \<Rightarrow>
                       (\<exists>ordered ps.
                          order_by col (sortOrder' = ''asc'') rows ordered
                          \<and> list_all2 (attached db) (take l (drop off ordered)) ps
                          \<and> out = Inr \<lparr>res_products = ps,
                                       res_total = count_distinct_id rows\<rparr>))))"

text \<open>\<open>DatabaseStorage.getProduct\<close>\<close>

definition getProduct :: "db \<Rightarrow> string \<Rightarrow> productWithCategories option \<Rightarrow> bool" where
  "getProduct db i out =
     (\<exists>rows. unordered (filter (\<lambda>p. p_id p = i) (products db)) rows
        \<and> (case rows of
             [] \<Rightarrow> out = None
           | p # rest \<Rightarrow> (\<exists>r. attached db p r \<and> out = Some r)))"

section \<open>The storage layer: writes\<close>

record insertProduct =
  i_name :: string
  i_description :: "string option"
  i_price :: rat
  i_stockQuantity :: int
  i_imageUrl :: "string option"

record partialProduct =
  u_name :: "string option"
  u_description :: "string option option"
  u_price :: "rat option"
  u_stockQuantity :: "int option"
  u_imageUrl :: "string option option"

text \<open>Each awaited statement either fails, leaving the store as it was, or commits its
  effect at once: no statement of the storage layer runs inside a transaction.\<close>

type_synonym statement = "db \<Rightarrow> store_error + db"

definition insert_product :: "string \<Rightarrow> nat \<Rightarrow> insertProduct \<Rightarrow> statement" where
  "insert_product newId now v db =
     (if newId \<in> set (map p_id (products db)) then Inl UniqueViolation
      else Inr (db\<lparr>products := products db @
                  [\<lparr>p_id = newId, p_name = i_name v, p_description = i_description v,
                    p_price = i_price v, p_stockQuantity = i_stockQuantity v,
                    p_imageUrl = i_imageUrl v, p_createdAt = now, p_updatedAt = now\<rparr>]\<rparr>))"

definition pair_of :: "productCategory \<Rightarrow> string \<times> string" where
  "pair_of pc = (pc_productId pc, pc_categoryId pc)"

definition references_ok :: "db \<Rightarrow> productCategory \<Rightarrow> bool" where
  "references_ok db pc =
     (pc_productId pc \<in> set (map p_id (products db))
      \<and> pc_categoryId pc \<in> set (map c_id (categories db)))"

text \<open>\<open>db.insert(productCategories).values(rows)\<close>: one statement for all the rows.\<close>

definition insert_productCategories :: "constraints \<Rightarrow> productCategory list \<Rightarrow> statement" where
  "insert_productCategories sch rows db =
     (if uniquePair sch
         \<and> (\<not> distinct (map pair_of rows)
            \<or> list_ex (\<lambda>r. pair_of r \<in> set (map pair_of (productCategories db))) rows)
      then Inl UniqueViolation
      else if foreignKeys sch \<and> \<not> list_all (references_ok db) rows
      then Inl ForeignKeyViolation
      else Inr (db\<lparr>productCategories := productCategories db @ rows\<rparr>))"

definition apply_partial :: "partialProduct \<Rightarrow> nat \<Rightarrow> product \<Rightarrow> product" where
  "apply_partial v now p =
     p\<lparr>p_name := or_default (u_name v) (p_name p),
       p_description := or_default (u_description v) (p_description p),
       p_price := or_default (u_price v) (p_price p),
       p_stockQuantity := or_default (u_stockQuantity v) (p_stockQuantity p),
       p_imageUrl := or_default (u_imageUrl v) (p_imageUrl p),
       p_updatedAt := now\<rparr>"

text \<open>\<open>db.update(products).set({...product, updatedAt: NOW()}).where(eq(products.id, id))\<close>\<close>

definition update_product :: "nat \<Rightarrow> string \<Rightarrow> partialProduct \<Rightarrow> statement" where
  "update_product now i v db =
     Inr (db\<lparr>products := map (\<lambda>p. if p_id p = i then apply_partial v now p else p) (products db)\<rparr>)"

text \<open>\<open>db.delete(productCategories).where(eq(productCategories.productId, id))\<close>\<close>

definition delete_productCategories :: "string \<Rightarrow> statement" where
  "delete_productCategories i db =
     Inr (db\<lparr>productCategories := filter (\<lambda>pc. pc_productId pc \<noteq> i) (productCategories db)\<rparr>)"

text \<open>\<open>db.delete(products).where(eq(products.id, id))\<close>; with foreign keys, the association
  rows of every deleted product row go with it.\<close>

definition delete_product :: "constraints \<Rightarrow> string \<Rightarrow> statement" where
  "delete_product sch i db =
     (let deleted = filter (\<lambda>p. p_id p = i) (products db);
          db' = db\<lparr>products := filter (\<lambda>p. p_id p \<noteq> i) (products db)\<rparr>
      in if foreignKeys sch
         then Inr (db'\<lparr>productCategories :=
                      filter (\<lambda>pc. pc_productId pc \<notin> set (map p_id deleted))
                        (productCategories db)\<rparr>)
         else Inr db')"

text \<open>Running the statements of a method in order: the first failure is thrown and the
  statements before it stay committed.\<close>

fun run :: "statement list \<Rightarrow> db \<Rightarrow> db \<times> store_error option" where
  "run [] db = (db, None)"
| "run (st # sts) db =
     (case st db of
        Inl e \<Rightarrow> (db, Some e)
      | Inr db' \<Rightarrow> run sts db')"

text \<open>The successive committed states, each one visible to a request served meanwhile.\<close>

fun committed :: "statement list \<Rightarrow> db \<Rightarrow> db list" where
  "committed [] db = [db]"
| "committed (st # sts) db =
     db # (case st db of
             Inl e \<Rightarrow> []
           | Inr db' \<Rightarrow> committed sts db')"

definition new_rows :: "string \<Rightarrow> string list \<Rightarrow> productCategory list" where
  "new_rows i cids = map (\<lambda>c. \<lparr>pc_productId = i, pc_categoryId = c\<rparr>) cids"

definition createProduct_statements ::
  "constraints \<Rightarrow> string \<Rightarrow> nat \<Rightarrow> insertProduct \<Rightarrow> string list \<Rightarrow> statement list" where
  "createProduct_statements sch newId now v cids =
     insert_product newId now v
     # (if cids \<noteq> [] then [insert_productCategories sch (new_rows newId cids)] else [])"

definition updateProduct_statements ::
  "constraints \<Rightarrow> nat \<Rightarrow> string \<Rightarrow> partialProduct \<Rightarrow> string list option \<Rightarrow> statement list" where
  "updateProduct_statements sch now i v cids =
     update_product now i v
     # (case cids of
          None \<Rightarrow> []
        | Some cs \<Rightarrow>
            delete_productCategories i
            # (if cs \<noteq> [] then [insert_productCategories sch (new_rows i cs)] else []))"

text \<open>A write method: its statements, then \<open>this.getProduct(id)\<close> on the resulting store.\<close>

definition then_getProduct ::
  "statement list \<Rightarrow> string \<Rightarrow> db \<Rightarrow> db \<times> (store_error + productWithCategories option) \<Rightarrow> bool" where
  "then_getProduct sts i db out =
     (case run sts db of
        (db', Some e) \<Rightarrow> out = (db', Inl e)
      | (db', None) \<Rightarrow> (\<exists>r. getProduct db' i r \<and> out = (db', Inr r)))"

text \<open>\<open>DatabaseStorage.createProduct\<close>; \<open>newId\<close> and \<open>now\<close> are the id and the time the
  store assigns to the new row.\<close>

definition createProduct ::
  "constraints \<Rightarrow> string \<Rightarrow> nat \<Rightarrow> insertProduct \<Rightarrow> string list \<Rightarrow> db
     \<Rightarrow> db \<times> (store_error + productWithCategories option) \<Rightarrow> bool" where
  "createProduct sch newId now v cids =
     then_getProduct (createProduct_statements sch newId now v cids) newId"

text \<open>\<open>DatabaseStorage.updateProduct\<close>\<close>

definition updateProduct ::
  "constraints \<Rightarrow> nat \<Rightarrow> string \<Rightarrow> partialProduct \<Rightarrow> string list option \<Rightarrow> db
     \<Rightarrow> db \<times> (store_error + productWithCategories option) \<Rightarrow> bool" where
  "updateProduct sch now i v cids =
     then_getProduct (updateProduct_statements sch now i v cids) i"

text \<open>\<open>DatabaseStorage.deleteProduct\<close>\<close>

definition deleteProduct :: "constraints \<Rightarrow> string \<Rightarrow> db \<Rightarrow> db \<times> store_error option" where
  "deleteProduct sch i db = run [delete_product sch i] db"

section \<open>The routes\<close>

datatype json_body =
    Json_message string
  | Json_products products_result
  | Json_product "productWithCategories option"
  | No_body

record response =
  status :: nat
  body :: json_body

subsection \<open>\<open>GET /api/products\<close>\<close>

text \<open>A query-string value is a string, or an array when the key is repeated; the
  handler looks at the array case for \<open>categoryIds\<close> only.\<close>

datatype query_value = QString string | QArray "string list"

record products_query =
  q_page :: "string option"
  q_limit :: "string option"
  q_search :: "string option"
  q_categoryId :: "string option"
  q_sortBy :: "string option"
  q_sortOrder :: "string option"
  q_categoryIds :: "query_value option"
  q_minPrice :: "string option"
  q_maxPrice :: "string option"
  q_minStock :: "string option"
  q_maxStock :: "string option"

text \<open>\<open>req.query.x ? parse(req.query.x as string) : undefined\<close>\<close>

definition parse_if_present :: "(string \<Rightarrow> jsnum) \<Rightarrow> string option \<Rightarrow> jsnum option" where
  "parse_if_present parse v =
     (case v of
        None \<Rightarrow> None
      | Some s \<Rightarrow> if s = [] then None else Some (parse s))"

text \<open>\<open>x !== undefined && (isNaN(x) || x < 0)\<close>\<close>

definition invalid_value :: "jsnum option \<Rightarrow> bool" where
  "invalid_value v = (case v of None \<Rightarrow> False | Some x \<Rightarrow> isNaN x \<or> js_lt x (Fin 0))"

text \<open>\<open>lo !== undefined && hi !== undefined && lo > hi\<close>\<close>

definition min_exceeds_max :: "jsnum option \<Rightarrow> jsnum option \<Rightarrow> bool" where
  "min_exceeds_max lo hi =
     (case lo of
        None \<Rightarrow> False
      | Some x \<Rightarrow> (case hi of None \<Rightarrow> False | Some y \<Rightarrow> js_gt x y))"

definition categoryIdsArray :: "query_value option \<Rightarrow> string list option" where
  "categoryIdsArray v =
     (case v of
        None \<Rightarrow> None
      | Some (QArray ids) \<Rightarrow> Some (filter (\<lambda>i. i \<noteq> [] \<and> trim i \<noteq> []) ids)
      | Some (QString s) \<Rightarrow>
          if s = [] then None
          else if CHR '','' \<in> set s
          then Some (filter (\<lambda>i. i \<noteq> []) (map trim (split_on (CHR '','') s)))
          else if trim s \<noteq> [] then Some [trim s]
          else None)"

definition bad_request :: "string \<Rightarrow> response" where
  "bad_request msg = \<lparr>status = 400, body = Json_message msg\<rparr>"

definition server_error :: "string \<Rightarrow> response" where
  "server_error msg = \<lparr>status = 500, body = Json_message msg\<rparr>"

text \<open>The handler up to the call of \<open>storage.getProducts\<close>: either an early 400 response
  or the argument of the call.\<close>

definition parse_products_query :: "products_query \<Rightarrow> response + getProducts_params" where
  "parse_products_query q =
     (let page' = js_or (parseInt_q (q_page q)) (Fin 1);
          limit' = js_or (parseInt_q (q_limit q)) (Fin 10);
          sortBy' = str_or (q_sortBy q) ''createdAt'';
          sortOrder' = str_or (q_sortOrder q) ''desc'';
          minPrice' = parse_if_present parseFloat (q_minPrice q);
          maxPrice' = parse_if_present parseFloat (q_maxPrice q);
          minStock' = parse_if_present parseInt (q_minStock q);
          maxStock' = parse_if_present parseInt (q_maxStock q)
      in if invalid_value minPrice' then Inl (bad_request ''Invalid minPrice value'')
         else if invalid_value maxPrice' then Inl (bad_request ''Invalid maxPrice value'')
         else if min_exceeds_max minPrice' maxPrice'
         then Inl (bad_request ''minPrice cannot be greater than maxPrice'')
         else if invalid_value minStock' then Inl (bad_request ''Invalid minStock value'')
         else if invalid_value maxStock' then Inl (bad_request ''Invalid maxStock value'')
         else if min_exceeds_max minStock' maxStock'
         then Inl (bad_request ''minStock cannot be greater than maxStock'')
         else Inr \<lparr>page = Some page', limit = Some limit', search = q_search q,
                   categoryId = q_categoryId q,
                   categoryIds = categoryIdsArray (q_categoryIds q),
                   minPrice = minPrice', maxPrice = maxPrice',
                   minStock = minStock', maxStock = maxStock',
                   sortBy = Some sortBy', sortOrder = Some sortOrder'\<rparr>)"

definition route_get_products :: "db \<Rightarrow> products_query \<Rightarrow> response \<Rightarrow> bool" where
  "route_get_products db q resp =
     (case parse_products_query q of
        Inl early \<Rightarrow> resp = early
      | Inr params \<Rightarrow>
          (\<exists>out. getProducts db params out
             \<and> resp = (case out of
                         Inl e \<Rightarrow> server_error ''Failed to fetch products''
                       | Inr result \<Rightarrow> \<lparr>status = 200, body = Json_products result\<rparr>)))"

subsection \<open>\<open>POST\<close>, \<open>PUT\<close> and \<open>DELETE /api/products\<close>\<close>

text \<open>The \<open>categoryIds\<close> member of a request body, and the rest of the body. The schema
  validators (\<open>insertProductSchema.parse\<close> and its \<open>partial()\<close>) are declared outside
  the sources and are parameters of the handlers; \<open>Inl\<close> carries the message of a
  validation error.\<close>

datatype json_categoryIds = J_absent | J_not_array | J_array "string list"

record 'raw product_body =
  b_categoryIds :: json_categoryIds
  b_productData :: 'raw

definition write_response ::
  "nat \<Rightarrow> string \<Rightarrow> store_error + productWithCategories option \<Rightarrow> response" where
  "write_response ok msg out =
     (case out of
        Inl e \<Rightarrow> server_error msg
      | Inr r \<Rightarrow> \<lparr>status = ok, body = Json_product r\<rparr>)"

definition route_post_product ::
  "('raw \<Rightarrow> string + insertProduct) \<Rightarrow> constraints \<Rightarrow> string \<Rightarrow> nat
     \<Rightarrow> 'raw product_body \<Rightarrow> db \<Rightarrow> db \<times> response \<Rightarrow> bool" where
  "route_post_product parse sch newId now req db out =
     (case parse (b_productData req) of
        Inl msg \<Rightarrow> out = (db, bad_request msg)
      | Inr validatedProduct \<Rightarrow>
          (let categoryIdsArray =
                 (case b_categoryIds req of J_array cids \<Rightarrow> cids | _ \<Rightarrow> [])
           in \<exists>r. createProduct sch newId now validatedProduct categoryIdsArray db r
                \<and> out = (fst r, write_response 201 ''Failed to create product'' (snd r))))"

definition route_put_product ::
  "('raw \<Rightarrow> string + partialProduct) \<Rightarrow> constraints \<Rightarrow> nat \<Rightarrow> string
     \<Rightarrow> 'raw product_body \<Rightarrow> db \<Rightarrow> db \<times> response \<Rightarrow> bool" where
  "route_put_product parse sch now i req db out =
     (case parse (b_productData req) of
        Inl msg \<Rightarrow> out = (db, bad_request msg)
      | Inr validatedProduct \<Rightarrow>
          (let categoryIdsArray =
                 (case b_categoryIds req of J_array cids \<Rightarrow> Some cids | _ \<Rightarrow> None)
           in \<exists>r. updateProduct sch now i validatedProduct categoryIdsArray db r
                \<and> out = (fst r, write_response 200 ''Failed to update product'' (snd r))))"

definition route_delete_product :: "constraints \<Rightarrow> string \<Rightarrow> db \<Rightarrow> db \<times> response" where
  "route_delete_product sch i db =
     (case deleteProduct sch i db of
        (db', None) \<Rightarrow> (db', \<lparr>status = 204, body = No_body\<rparr>)
      | (db', Some e) \<Rightarrow> (db', server_error ''Failed to delete product''))"

section \<open>Notions used in the statements\<close>

text \<open>The association rows of one product, and those of all the others.\<close>

definition associations_of :: "db \<Rightarrow> string \<Rightarrow> productCategory list" where
  "associations_of db i = filter (\<lambda>pc. pc_productId pc = i) (productCategories db)"

definition associations_but :: "db \<Rightarrow> string \<Rightarrow> productCategory list" where
  "associations_but db i = filter (\<lambda>pc. pc_productId pc \<noteq> i) (productCategories db)"

text \<open>The store after the first statement of \<open>updateProduct\<close>, and after its delete
  statement.\<close>

definition after_update :: "nat \<Rightarrow> string \<Rightarrow> partialProduct \<Rightarrow> db \<Rightarrow> db" where
  "after_update now i v db =
     db\<lparr>products := map (\<lambda>p. if p_id p = i then apply_partial v now p else p) (products db)\<rparr>"

definition after_delete :: "nat \<Rightarrow> string \<Rightarrow> partialProduct \<Rightarrow> db \<Rightarrow> db" where
  "after_delete now i v db =
     (after_update now i v db)\<lparr>productCategories :=
        filter (\<lambda>pc. pc_productId pc \<noteq> i) (productCategories db)\<rparr>"

text \<open>The store after the first statement of \<open>createProduct\<close>; a category id that
  names a row of the category table.\<close>

definition after_insert :: "string \<Rightarrow> nat \<Rightarrow> insertProduct \<Rightarrow> db \<Rightarrow> db" where
  "after_insert newId now v db =
     db\<lparr>products := products db @
         [\<lparr>p_id = newId, p_name = i_name v, p_description = i_description v,
           p_price = i_price v, p_stockQuantity = i_stockQuantity v,
           p_imageUrl = i_imageUrl v, p_createdAt = now, p_updatedAt = now\<rparr>]\<rparr>"

definition category_exists :: "db \<Rightarrow> string \<Rightarrow> bool" where
  "category_exists db c = (c \<in> set (map c_id (categories db)))"

text \<open>The range checks of the listing, in terms of the raw parameters: a supplied,
  non-empty value that parses to \<open>NaN\<close> or below zero; a supplied, non-empty pair
  whose minimum parses above its maximum; the messages of the 400 responses.\<close>

definition supplied_invalid :: "(string \<Rightarrow> jsnum) \<Rightarrow> string option \<Rightarrow> bool" where
  "supplied_invalid parse v =
     (case v of
        None \<Rightarrow> False
      | Some s \<Rightarrow> s \<noteq> [] \<and> (parse s = NaN \<or> js_lt (parse s) (Fin 0)))"

definition supplied_min_exceeds_max ::
  "(string \<Rightarrow> jsnum) \<Rightarrow> string option \<Rightarrow> string option \<Rightarrow> bool" where
  "supplied_min_exceeds_max parse lo hi =
     (case lo of
        None \<Rightarrow> False
      | Some a \<Rightarrow>
          (case hi of
             None \<Rightarrow> False
           | Some b \<Rightarrow> a \<noteq> [] \<and> b \<noteq> [] \<and> js_lt (parse b) (parse a)))"


text \<open>Two rows with the same value in the sort column; the read model of a product with
  its categories in table order; a list of rows in which no two different rows have the
  same value in the sort column.\<close>

definition col_eq :: "column \<Rightarrow> product \<Rightarrow> product \<Rightarrow> bool" where
  "col_eq col p q = (col_le col p q \<and> col_le col q p)"

definition with_categories :: "db \<Rightarrow> product \<Rightarrow> productWithCategories" where
  "with_categories db p = \<lparr>pwc_product = p, pwc_categories = productCats_rows db (p_id p)\<rparr>"

definition no_ties :: "column \<Rightarrow> product list \<Rightarrow> bool" where
  "no_ties col rows = (\<forall>p\<in>set rows. \<forall>q\<in>set rows. col_eq col p q \<longrightarrow> p = q)"

text \<open>The category predicate in the spec's words: the product has an association row
  whose category id is in the given collection. A product satisfies a filter-set when it
  passes the conditions on its own columns and, with a category filter, that predicate.\<close>

definition has_category_in :: "db \<Rightarrow> string list \<Rightarrow> product \<Rightarrow> bool" where
  "has_category_in db cats p =
     list_ex (\<lambda>pc. pc_productId pc = p_id p \<and> pc_categoryId pc \<in> set cats) (productCategories db)"

definition satisfies_filter :: "db \<Rightarrow> getProducts_params \<Rightarrow> product \<Rightarrow> bool" where
  "satisfies_filter db params p =
     (product_conditions params p
      \<and> (case categoriesToFilter params of
            None \<Rightarrow> True
          | Some cats \<Rightarrow> has_category_in db cats p))"

section \<open>An example store\<close>

definition widget :: product where
  "widget = \<lparr>p_id = ''p1'', p_name = ''Widget'', p_description = None, p_price = 999 / 100,
     p_stockQuantity = 5, p_imageUrl = None, p_createdAt = 100, p_updatedAt = 100\<rparr>"

definition gadget :: product where
  "gadget = \<lparr>p_id = ''p2'', p_name = ''Gadget'', p_description = None, p_price = 1999 / 100,
     p_stockQuantity = 0, p_imageUrl = None, p_createdAt = 100, p_updatedAt = 100\<rparr>"

definition tools :: category where
  "tools = \<lparr>c_id = ''c1'', c_name = ''Tools'', c_createdAt = 1\<rparr>"

definition electronics :: category where
  "electronics = \<lparr>c_id = ''c2'', c_name = ''Electronics'', c_createdAt = 2\<rparr>"

definition shop :: db where
  "shop = \<lparr>products = [widget, gadget], categories = [tools, electronics],
     productCategories =
       [\<lparr>pc_productId = ''p1'', pc_categoryId = ''c1''\<rparr>,
        \<lparr>pc_productId = ''p2'', pc_categoryId = ''c1''\<rparr>,
        \<lparr>pc_productId = ''p2'', pc_categoryId = ''c2''\<rparr>]\<rparr>"

definition no_change :: partialProduct where
  "no_change = \<lparr>u_name = None, u_description = None, u_price = None,
     u_stockQuantity = None, u_imageUrl = None\<rparr>"

definition gadget_touched :: product where
  "gadget_touched = gadget\<lparr>p_updatedAt := 200\<rparr>"

definition kept :: "db \<times> (store_error + productWithCategories option)" where
  "kept = (shop\<lparr>products := [widget, gadget_touched]\<rparr>,
           Inr (Some \<lparr>pwc_product = gadget_touched, pwc_categories = [tools, electronics]\<rparr>))"

definition cleared :: "db \<times> (store_error + productWithCategories option)" where
  "cleared = (shop\<lparr>products := [widget, gadget_touched],
                   productCategories := [\<lparr>pc_productId = ''p1'', pc_categoryId = ''c1''\<rparr>]\<rparr>,
              Inr (Some \<lparr>pwc_product = gadget_touched, pwc_categories = []\<rparr>))"

definition replace_c1 :: "statement list" where
  "replace_c1 = updateProduct_statements spec_schema 200 ''p2'' no_change (Some [''c1''])"

definition replace_c9 :: "statement list" where
  "replace_c9 = updateProduct_statements spec_schema 200 ''p2'' no_change (Some [''c9''])"

definition replaced :: "db \<times> (store_error + productWithCategories option)" where
  "replaced = (shop\<lparr>products := [widget, gadget_touched],
                    productCategories := [\<lparr>pc_productId = ''p1'', pc_categoryId = ''c1''\<rparr>,
                                          \<lparr>pc_productId = ''p2'', pc_categoryId = ''c1''\<rparr>]\<rparr>,
               Inr (Some \<lparr>pwc_product = gadget_touched, pwc_categories = [tools]\<rparr>))"

definition refused :: "db \<times> (store_error + productWithCategories option)" where
  "refused = (fst cleared, Inl ForeignKeyViolation)"

definition gizmo :: insertProduct where
  "gizmo = \<lparr>i_name = ''Gizmo'', i_description = None, i_price = 5, i_stockQuantity = 1,
     i_imageUrl = None\<rparr>"

definition no_unique :: constraints where
  "no_unique = \<lparr>uniquePair = False, foreignKeys = True\<rparr>"

definition twice_c1 :: "productCategory list" where
  "twice_c1 = [\<lparr>pc_productId = ''p3'', pc_categoryId = ''c1''\<rparr>,
               \<lparr>pc_productId = ''p3'', pc_categoryId = ''c1''\<rparr>]"

definition gizmo_row :: product where
  "gizmo_row = \<lparr>p_id = ''p3'', p_name = ''Gizmo'', p_description = None, p_price = 5,
     p_stockQuantity = 1, p_imageUrl = None, p_createdAt = 300, p_updatedAt = 300\<rparr>"

definition shop_with_gizmo :: db where
  "shop_with_gizmo = shop\<lparr>products := [widget, gadget, gizmo_row]\<rparr>"

definition rejected :: "db \<times> (store_error + productWithCategories option)" where
  "rejected = (shop_with_gizmo, Inl UniqueViolation)"

definition doubled :: "db \<times> (store_error + productWithCategories option)" where
  "doubled = (shop_with_gizmo\<lparr>productCategories := productCategories shop @ twice_c1\<rparr>,
              Inr (Some \<lparr>pwc_product = gizmo_row, pwc_categories = [tools, tools]\<rparr>))"

definition created :: "db \<times> (store_error + productWithCategories option)" where
  "created = (shop_with_gizmo\<lparr>productCategories := productCategories shop @
                 [\<lparr>pc_productId = ''p3'', pc_categoryId = ''c1''\<rparr>,
                  \<lparr>pc_productId = ''p3'', pc_categoryId = ''c2''\<rparr>]\<rparr>,
              Inr (Some \<lparr>pwc_product = gizmo_row, pwc_categories = [tools, electronics]\<rparr>))"

definition no_query :: products_query where
  "no_query = \<lparr>q_page = None, q_limit = None, q_search = None, q_categoryId = None,
     q_sortBy = None, q_sortOrder = None, q_categoryIds = None, q_minPrice = None,
     q_maxPrice = None, q_minStock = None, q_maxStock = None\<rparr>"

definition default_params :: getProducts_params where
  "default_params = \<lparr>page = Some (Fin 1), limit = Some (Fin 10), search = None,
     categoryId = None, categoryIds = None, minPrice = None, maxPrice = None,
     minStock = None, maxStock = None, sortBy = Some ''createdAt'', sortOrder = Some ''desc''\<rparr>"







definition by_price :: getProducts_params where
  "by_price = default_params\<lparr>sortBy := Some ''price''\<rparr>"

definition widget_with :: productWithCategories where
  "widget_with = \<lparr>pwc_product = widget, pwc_categories = [tools]\<rparr>"

definition gadget_with :: productWithCategories where
  "gadget_with = \<lparr>pwc_product = gadget, pwc_categories = [tools, electronics]\<rparr>"

definition gadget_with_alt :: productWithCategories where
  "gadget_with_alt = \<lparr>pwc_product = gadget, pwc_categories = [electronics, tools]\<rparr>"

definition listing_wg :: products_result where
  "listing_wg = \<lparr>res_products = [widget_with, gadget_with], res_total = 2\<rparr>"

definition listing_gw :: products_result where
  "listing_gw = \<lparr>res_products = [gadget_with, widget_with], res_total = 2\<rparr>"

definition listing_gw_alt :: products_result where
  "listing_gw_alt = \<lparr>res_products = [gadget_with_alt, widget_with], res_total = 2\<rparr>"

definition order_sideways :: products_query where
  "order_sideways = no_query\<lparr>q_sortBy := Some ''price'', q_sortOrder := Some ''sideways''\<rparr>"

definition sort_bogus :: products_query where
  "sort_bogus = no_query\<lparr>q_sortBy := Some ''bogus''\<rparr>"

definition sideways_params :: getProducts_params where
  "sideways_params = by_price\<lparr>sortOrder := Some ''sideways''\<rparr>"

definition empty_categoryId :: getProducts_params where
  "empty_categoryId = default_params\<lparr>categoryId := Some []\<rparr>"

definition both_categories :: getProducts_params where
  "both_categories = default_params\<lparr>categoryIds := Some [''c1'', ''c2'']\<rparr>"

definition tools_only :: getProducts_params where
  "tools_only = default_params\<lparr>categoryId := Some ''c1''\<rparr>"

definition electronics_over_tools :: getProducts_params where
  "electronics_over_tools = default_params\<lparr>categoryId := Some ''c1'', categoryIds := Some [''c2'']\<rparr>"

definition categoryId_empty_query :: products_query where
  "categoryId_empty_query = no_query\<lparr>q_categoryId := Some []\<rparr>"

definition categoryIds_c1_c2_query :: products_query where
  "categoryIds_c1_c2_query = no_query\<lparr>q_categoryIds := Some (QString ''c1,c2'')\<rparr>"

definition listing_wgg :: products_result where
  "listing_wgg = \<lparr>res_products = [widget_with, gadget_with, gadget_with], res_total = 2\<rparr>"

section \<open>Deleting a product\<close>

lemma filter_other_id: "i \<notin> set (map p_id ps) \<Longrightarrow> filter (\<lambda>p. p_id p \<noteq> i) ps = ps"
  by (induction ps) auto

lemma filter_this_id: "i \<notin> set (map p_id ps) \<Longrightarrow> filter (\<lambda>p. p_id p = i) ps = []"
  by (induction ps) auto

lemma delete_product_missing:
  "i \<notin> set (map p_id (products db)) \<Longrightarrow> delete_product sch i db = Inr db"
  by (simp add: delete_product_def filter_other_id filter_this_id Let_def)

lemma delete_product_succeeds: "\<exists>db'. delete_product sch i db = Inr db'"
  by (simp add: delete_product_def Let_def)

text \<open>
  C10. For an id that no product row has, \<open>deleteProduct\<close> completes without an error and
  leaves the store as it was, and the \<open>DELETE\<close> route answers 204 with no body; the route
  answers the same for any id \<open>j\<close>, so also for an existing product.
\<close>

theorem deleteProduct_missing_id:
  "i \<notin> set (map p_id (products db)) \<Longrightarrow>
     deleteProduct sch i db = (db, None)
     \<and> route_delete_product sch i db = (db, \<lparr>status = 204, body = No_body\<rparr>)
     \<and> snd (route_delete_product sch j db) = \<lparr>status = 204, body = No_body\<rparr>"
proof -
  assume missing: "i \<notin> set (map p_id (products db))"
  have d: "deleteProduct sch i db = (db, None)"
    using delete_product_missing [OF missing] by (simp add: deleteProduct_def)
  obtain db' where "delete_product sch j db = Inr db'"
    using delete_product_succeeds by blast
  then have "snd (route_delete_product sch j db) = \<lparr>status = 204, body = No_body\<rparr>"
    by (simp add: route_delete_product_def deleteProduct_def)
  with d show ?thesis
    by (simp add: route_delete_product_def)
qed

theorem deleteProduct_missing_id_witness:
  "''p9'' \<notin> set (map p_id (products shop))
   \<and> deleteProduct spec_schema ''p9'' shop = (shop, None)
   \<and> route_delete_product spec_schema ''p9'' shop = (shop, \<lparr>status = 204, body = No_body\<rparr>)
   \<and> snd (route_delete_product spec_schema ''p1'' shop) = \<lparr>status = 204, body = No_body\<rparr>"
proof -
  have h: "''p9'' \<notin> set (map p_id (products shop))"
    by (simp add: shop_def widget_def gadget_def)
  show ?thesis
    using h deleteProduct_missing_id [OF h, of spec_schema "''p1''"] by simp
qed

section \<open>Updating a product\<close>

lemma getProduct_SomeI:
  "filter (\<lambda>p. p_id p = i) (products db) = p # ps \<Longrightarrow>
     getProduct db i (Some \<lparr>pwc_product = p, pwc_categories = productCats_rows db (p_id p)\<rparr>)"
  unfolding getProduct_def
  by (rule exI [of _ "p # ps"]) (simp add: unordered_def attached_def)

lemma getProduct_NoneI:
  "filter (\<lambda>p. p_id p = i) (products db) = [] \<Longrightarrow> getProduct db i None"
  unfolding getProduct_def
  by (rule exI [of _ "[]"]) (simp add: unordered_def)

lemma getProduct_total: "\<exists>r. getProduct db i r"
proof (cases "filter (\<lambda>p. p_id p = i) (products db)")
  case Nil
  then show ?thesis using getProduct_NoneI by blast
next
  case (Cons p ps)
  then show ?thesis using getProduct_SomeI by blast
qed

lemma then_getProduct_fst: "then_getProduct sts i db out \<Longrightarrow> fst out = fst (run sts db)"
  by (auto simp: then_getProduct_def split: prod.splits option.splits)

lemma then_getProduct_ok:
  "then_getProduct sts i db out \<Longrightarrow> snd (run sts db) = None \<Longrightarrow> \<exists>r. snd out = Inr r"
  by (auto simp: then_getProduct_def split: prod.splits option.splits)

lemma then_getProduct_failed:
  "then_getProduct sts i db out \<Longrightarrow> snd (run sts db) = Some e \<Longrightarrow> snd out = Inl e"
  by (auto simp: then_getProduct_def split: prod.splits option.splits)

lemma then_getProductI:
  "run sts db = (db', None) \<Longrightarrow> getProduct db' i r \<Longrightarrow> then_getProduct sts i db (db', Inr r)"
  by (auto simp: then_getProduct_def)

lemma then_getProduct_total: "\<exists>out. then_getProduct sts i db out"
proof (cases "run sts db")
  case (Pair db' e)
  show ?thesis
  proof (cases e)
    case None
    obtain r where "getProduct db' i r" using getProduct_total by blast
    with Pair None show ?thesis using then_getProductI by blast
  next
    case (Some err)
    with Pair show ?thesis by (auto simp: then_getProduct_def)
  qed
qed

lemma run_update_omitted:
  "run (updateProduct_statements sch now i v None) db =
     (db\<lparr>products := map (\<lambda>p. if p_id p = i then apply_partial v now p else p) (products db)\<rparr>, None)"
  by (simp add: updateProduct_statements_def update_product_def)

lemma run_update_empty:
  "run (updateProduct_statements sch now i v (Some [])) db =
     (db\<lparr>products := map (\<lambda>p. if p_id p = i then apply_partial v now p else p) (products db),
         productCategories := filter (\<lambda>pc. pc_productId pc \<noteq> i) (productCategories db)\<rparr>, None)"
  by (simp add: updateProduct_statements_def update_product_def delete_productCategories_def)

lemma filter_filter_neg: "filter P (filter (\<lambda>x. \<not> P x) xs) = []"
  by (induction xs) auto

text \<open>
  C2. \<open>updateProduct\<close> with \<open>categoryIds\<close> omitted always returns, without an error,
  and leaves the association table exactly as it was; with the empty list it always
  returns, without an error, the product has no association row afterwards and the rows
  of the other products are as before. The \<open>PUT\<close> route passes an absent
  \<open>categoryIds\<close> on as omitted and an empty array as the empty list.
\<close>

theorem updateProduct_omitted_or_empty:
  "(\<exists>out. updateProduct sch now i v None db out)
   \<and> (updateProduct sch now i v None db out1 \<longrightarrow>
        productCategories (fst out1) = productCategories db \<and> (\<exists>r. snd out1 = Inr r))
   \<and> (\<exists>out. updateProduct sch now i v (Some []) db out)
   \<and> (updateProduct sch now i v (Some []) db out2 \<longrightarrow>
        associations_of (fst out2) i = []
        \<and> associations_but (fst out2) i = associations_but db i
        \<and> (\<exists>r. snd out2 = Inr r))
   \<and> (route_put_product parse sch now i req db out3 \<and> b_categoryIds req = J_absent \<longrightarrow>
        productCategories (fst out3) = productCategories db)
   \<and> (route_put_product parse sch now i req db out4 \<and> b_categoryIds req = J_array []
        \<and> parse (b_productData req) = Inr v \<longrightarrow>
        associations_of (fst out4) i = [] \<and> status (snd out4) = 200)"
proof -
  have omitted: "productCategories (fst out) = productCategories db \<and> (\<exists>r. snd out = Inr r)"
    if "updateProduct sch now i w None db out" for out w
    using then_getProduct_fst [of _ i db out] then_getProduct_ok [of _ i db out] that
    by (simp add: updateProduct_def run_update_omitted)
  have empty: "associations_of (fst out) i = []
        \<and> associations_but (fst out) i = associations_but db i \<and> (\<exists>r. snd out = Inr r)"
    if "updateProduct sch now i w (Some []) db out" for out w
    using then_getProduct_fst [of _ i db out] then_getProduct_ok [of _ i db out] that
    by (simp add: updateProduct_def run_update_empty associations_of_def associations_but_def
        filter_filter_neg [of "\<lambda>pc. pc_productId pc = i"])
  have route_absent: "productCategories (fst out3) = productCategories db"
    if r: "route_put_product parse sch now i req db out3" and b: "b_categoryIds req = J_absent"
  proof (cases "parse (b_productData req)")
    case (Inl msg)
    with r show ?thesis by (simp add: route_put_product_def)
  next
    case (Inr w)
    with r b obtain out where "updateProduct sch now i w None db out" "fst out3 = fst out"
      by (auto simp: route_put_product_def)
    with omitted [of w out] show ?thesis by simp
  qed
  have route_empty: "associations_of (fst out4) i = [] \<and> status (snd out4) = 200"
    if r: "route_put_product parse sch now i req db out4" and b: "b_categoryIds req = J_array []"
      and p: "parse (b_productData req) = Inr v"
  proof -
    from r b p obtain out where u: "updateProduct sch now i v (Some []) db out"
      and o: "out4 = (fst out, write_response 200 ''Failed to update product'' (snd out))"
      by (auto simp: route_put_product_def)
    from empty [OF u] obtain res where "associations_of (fst out) i = []" "snd out = Inr res"
      by blast
    with o show ?thesis by (simp add: write_response_def)
  qed
  show ?thesis
    using omitted [of v out1] empty [of v out2] route_absent route_empty
      then_getProduct_total [of "updateProduct_statements sch now i v None" i db]
      then_getProduct_total [of "updateProduct_statements sch now i v (Some [])" i db]
    by (simp add: updateProduct_def)
qed


lemmas shop_simps = shop_def widget_def gadget_def tools_def electronics_def

lemma updateProduct_kept: "updateProduct spec_schema 200 ''p2'' no_change None shop kept"
proof -
  let ?db = "shop\<lparr>products := [widget, gadget_touched]\<rparr>"
  have r: "run (updateProduct_statements spec_schema 200 ''p2'' no_change None) shop = (?db, None)"
    by (simp add: run_update_omitted shop_simps gadget_touched_def apply_partial_def
        no_change_def or_default_def)
  have "getProduct ?db ''p2''
          (Some \<lparr>pwc_product = gadget_touched,
                 pwc_categories = productCats_rows ?db (p_id gadget_touched)\<rparr>)"
    by (rule getProduct_SomeI [where ps = "[]"]) (simp add: shop_simps gadget_touched_def)
  moreover have "productCats_rows ?db (p_id gadget_touched) = [tools, electronics]"
    by (simp add: productCats_rows_def shop_simps gadget_touched_def)
  ultimately show ?thesis
    using then_getProductI [OF r] by (simp add: updateProduct_def kept_def)
qed

lemma updateProduct_cleared: "updateProduct spec_schema 200 ''p2'' no_change (Some []) shop cleared"
proof -
  let ?db = "shop\<lparr>products := [widget, gadget_touched],
                   productCategories := [\<lparr>pc_productId = ''p1'', pc_categoryId = ''c1''\<rparr>]\<rparr>"
  have r: "run (updateProduct_statements spec_schema 200 ''p2'' no_change (Some [])) shop = (?db, None)"
    by (simp add: run_update_empty shop_simps gadget_touched_def apply_partial_def
        no_change_def or_default_def)
  have "getProduct ?db ''p2''
          (Some \<lparr>pwc_product = gadget_touched,
                 pwc_categories = productCats_rows ?db (p_id gadget_touched)\<rparr>)"
    by (rule getProduct_SomeI [where ps = "[]"]) (simp add: shop_simps gadget_touched_def)
  moreover have "productCats_rows ?db (p_id gadget_touched) = []"
    by (simp add: productCats_rows_def shop_simps gadget_touched_def)
  ultimately show ?thesis
    using then_getProductI [OF r] by (simp add: updateProduct_def cleared_def)
qed

theorem updateProduct_omitted_or_empty_witness:
  "updateProduct spec_schema 200 ''p2'' no_change None shop kept
   \<and> productCategories (fst kept) = productCategories shop
   \<and> updateProduct spec_schema 200 ''p2'' no_change (Some []) shop cleared
   \<and> associations_of (fst cleared) ''p2'' = []
   \<and> associations_but (fst cleared) ''p2'' = associations_but shop ''p2''
   \<and> length (associations_of shop ''p2'') = 2"
proof -
  note t = updateProduct_omitted_or_empty [of spec_schema 200 "''p2''" no_change shop kept cleared]
  from t updateProduct_kept
  have 1: "productCategories (fst kept) = productCategories shop" by blast
  from t updateProduct_cleared
  have 2: "associations_of (fst cleared) ''p2'' = []
           \<and> associations_but (fst cleared) ''p2'' = associations_but shop ''p2''" by blast
  have 3: "length (associations_of shop ''p2'') = 2"
    by (simp add: associations_of_def shop_def)
  from updateProduct_kept updateProduct_cleared 1 2 3 show ?thesis by blast
qed

section \<open>Replacing the associations of a product\<close>

lemma associations_of_deleted [simp]:
  "filter (\<lambda>pc. pc_productId pc = i) (filter (\<lambda>pc. pc_productId pc \<noteq> i) xs) = []"
  by (induction xs) auto

lemma associations_but_deleted [simp]:
  "filter (\<lambda>pc. pc_productId pc \<noteq> i) (filter (\<lambda>pc. pc_productId pc \<noteq> i) xs)
     = filter (\<lambda>pc. pc_productId pc \<noteq> i) xs"
  by (induction xs) auto

lemma associations_of_new_rows [simp]:
  "filter (\<lambda>pc. pc_productId pc = i) (new_rows i cs) = new_rows i cs"
  by (induction cs) (auto simp: new_rows_def)

lemma associations_but_new_rows [simp]:
  "filter (\<lambda>pc. pc_productId pc \<noteq> i) (new_rows i cs) = []"
  by (induction cs) (auto simp: new_rows_def)

lemma insert_cases:
  "insert_productCategories sch rows db = Inr (db\<lparr>productCategories := productCategories db @ rows\<rparr>)
   \<or> (\<exists>e. insert_productCategories sch rows db = Inl e)"
  by (simp add: insert_productCategories_def)

lemma committed_replace:
  "cs \<noteq> [] \<Longrightarrow>
   committed (updateProduct_statements sch now i v (Some cs)) db =
     db # after_update now i v db # after_delete now i v db
     # (case insert_productCategories sch (new_rows i cs) (after_delete now i v db) of
          Inl e \<Rightarrow> [] | Inr db' \<Rightarrow> [db'])"
  by (simp add: updateProduct_statements_def update_product_def delete_productCategories_def
      after_update_def after_delete_def split: sum.splits)

lemma run_replace:
  "cs \<noteq> [] \<Longrightarrow>
   run (updateProduct_statements sch now i v (Some cs)) db =
     (case insert_productCategories sch (new_rows i cs) (after_delete now i v db) of
        Inl e \<Rightarrow> (after_delete now i v db, Some e)
      | Inr db' \<Rightarrow> (db', None))"
  by (simp add: updateProduct_statements_def update_product_def delete_productCategories_def
      after_update_def after_delete_def split: sum.splits)

text \<open>
  C3, as amended. The delete and the insert of a replacement are two statements, each
  committed on its own. For a non-empty new list: the committed states begin with the
  store as it was, the store with the product row updated, and the store after the
  delete, which a request served meanwhile reads and which has no association row of the
  product; when \<open>updateProduct\<close> throws, the store is left in exactly that state (the
  prior state is not restored); when it returns, the rows of the product are one row per
  supplied id and the rows of the other products are as before.
\<close>

theorem updateProduct_replace_not_atomic:
  "cs \<noteq> [] \<Longrightarrow>
     take 3 (committed (updateProduct_statements sch now i v (Some cs)) db)
       = [db, after_update now i v db, after_delete now i v db]
     \<and> associations_of (after_delete now i v db) i = []
     \<and> (updateProduct sch now i v (Some cs) db out \<and> snd out = Inl e \<longrightarrow>
          fst out = after_delete now i v db)
     \<and> (updateProduct sch now i v (Some cs) db out \<and> snd out = Inr r \<longrightarrow>
          associations_of (fst out) i = new_rows i cs
          \<and> associations_but (fst out) i = associations_but db i)"
proof -
  assume cs: "cs \<noteq> []"
  let ?sts = "updateProduct_statements sch now i v (Some cs)"
  let ?mid = "after_delete now i v db"
  have 1: "take 3 (committed ?sts db) = [db, after_update now i v db, ?mid]"
    by (simp add: committed_replace [OF cs])
  have 2: "associations_of ?mid i = []"
    by (simp add: associations_of_def after_delete_def)
  have 3: "fst out = ?mid" if u: "updateProduct sch now i v (Some cs) db out" and f: "snd out = Inl e"
  proof (cases "insert_productCategories sch (new_rows i cs) ?mid")
    case (Inl err)
    with u cs show ?thesis
      using then_getProduct_fst [of ?sts i db out] by (simp add: updateProduct_def run_replace)
  next
    case (Inr db')
    with u cs f show ?thesis
      using then_getProduct_ok [of ?sts i db out] by (simp add: updateProduct_def run_replace)
  qed
  have 4: "associations_of (fst out) i = new_rows i cs
           \<and> associations_but (fst out) i = associations_but db i"
    if u: "updateProduct sch now i v (Some cs) db out" and s: "snd out = Inr r"
  proof (cases "insert_productCategories sch (new_rows i cs) ?mid")
    case (Inl err)
    with u cs s show ?thesis
      using then_getProduct_failed [of ?sts i db out err] by (simp add: updateProduct_def run_replace)
  next
    case (Inr db')
    with insert_cases [of sch "new_rows i cs" ?mid]
    have db': "db' = ?mid\<lparr>productCategories := productCategories ?mid @ new_rows i cs\<rparr>"
      by auto
    from u cs Inr have "fst out = db'"
      using then_getProduct_fst [of ?sts i db out] by (simp add: updateProduct_def run_replace)
    with db' show ?thesis
      by (simp add: associations_of_def associations_but_def after_delete_def after_update_def)
  qed
  from 1 2 3 4 show ?thesis by blast
qed


lemma after_delete_shop: "after_delete 200 ''p2'' no_change shop = fst cleared"
  by (simp add: after_delete_def after_update_def cleared_def shop_simps gadget_touched_def
      apply_partial_def no_change_def or_default_def)

lemma insert_c1_accepted:
  "insert_productCategories spec_schema (new_rows ''p2'' [''c1'']) (fst cleared)
     = Inr (fst replaced)"
  by (simp add: insert_productCategories_def cleared_def replaced_def spec_schema_def
      new_rows_def pair_of_def references_ok_def shop_simps gadget_touched_def)

lemma run_replace_c1: "run replace_c1 shop = (fst replaced, None)"
  by (simp add: replace_c1_def run_replace after_delete_shop insert_c1_accepted)

lemma run_replace_c9: "run replace_c9 shop = (fst cleared, Some ForeignKeyViolation)"
proof -
  have "insert_productCategories spec_schema (new_rows ''p2'' [''c9'']) (fst cleared)
          = Inl ForeignKeyViolation"
    by (simp add: insert_productCategories_def cleared_def spec_schema_def
        new_rows_def pair_of_def references_ok_def shop_simps gadget_touched_def)
  then show ?thesis
    by (simp add: replace_c9_def run_replace after_delete_shop)
qed

text \<open>
  C3 as stated fails. Replacing the two categories of the gadget by one: the third of the
  four committed states, between the delete and the insert, has no association of the
  gadget. Replacing them by a category that does not exist: the insert is refused, and the
  store keeps the delete and the updated row.
\<close>

theorem updateProduct_replace_atomic_counterexample:
  "length (associations_of shop ''p2'') = 2
   \<and> committed replace_c1 shop
       = [shop, after_update 200 ''p2'' no_change shop, fst cleared, fst replaced]
   \<and> run replace_c9 shop = (fst cleared, Some ForeignKeyViolation)
   \<and> associations_of (fst cleared) ''p2'' = []
   \<and> fst cleared \<noteq> shop"
proof -
  have 1: "length (associations_of shop ''p2'') = 2"
    by (simp add: associations_of_def shop_def)
  have 2: "committed replace_c1 shop
       = [shop, after_update 200 ''p2'' no_change shop, fst cleared, fst replaced]"
    by (simp add: replace_c1_def committed_replace after_delete_shop insert_c1_accepted)
  have 3: "associations_of (fst cleared) ''p2'' = []"
    by (simp add: associations_of_def cleared_def)
  have 4: "fst cleared \<noteq> shop"
    by (simp add: cleared_def shop_def)
  from 1 2 3 4 run_replace_c9 show ?thesis by blast
qed

lemma updateProduct_replaced:
  "updateProduct spec_schema 200 ''p2'' no_change (Some [''c1'']) shop replaced"
proof -
  let ?db = "fst replaced"
  have r: "run (updateProduct_statements spec_schema 200 ''p2'' no_change (Some [''c1''])) shop
             = (?db, None)"
    using run_replace_c1 by (simp add: replace_c1_def)
  have "getProduct ?db ''p2''
          (Some \<lparr>pwc_product = gadget_touched,
                 pwc_categories = productCats_rows ?db (p_id gadget_touched)\<rparr>)"
    by (rule getProduct_SomeI [where ps = "[]"])
       (simp add: replaced_def shop_simps gadget_touched_def)
  moreover have "productCats_rows ?db (p_id gadget_touched) = [tools]"
    by (simp add: productCats_rows_def replaced_def shop_simps gadget_touched_def)
  ultimately show ?thesis
    using then_getProductI [OF r] by (simp add: updateProduct_def replaced_def)
qed

lemma updateProduct_refused:
  "updateProduct spec_schema 200 ''p2'' no_change (Some [''c9'']) shop refused"
  using run_replace_c9
  by (simp add: updateProduct_def then_getProduct_def replace_c9_def refused_def)

theorem updateProduct_replace_not_atomic_witness:
  "[''c1''] \<noteq> [] \<and> [''c9''] \<noteq> []
   \<and> updateProduct spec_schema 200 ''p2'' no_change (Some [''c1'']) shop replaced
   \<and> associations_of (fst replaced) ''p2'' = [\<lparr>pc_productId = ''p2'', pc_categoryId = ''c1''\<rparr>]
   \<and> associations_but (fst replaced) ''p2'' = associations_but shop ''p2''
   \<and> updateProduct spec_schema 200 ''p2'' no_change (Some [''c9'']) shop refused
   \<and> fst refused = after_delete 200 ''p2'' no_change shop
   \<and> associations_of (after_delete 200 ''p2'' no_change shop) ''p2'' = []"
proof -
  have c1: "[''c1''] \<noteq> []" and c9: "[''c9''] \<noteq> []" by simp_all
  have s1: "snd replaced = Inr (Some \<lparr>pwc_product = gadget_touched, pwc_categories = [tools]\<rparr>)"
    by (simp add: replaced_def)
  have s2: "snd refused = Inl ForeignKeyViolation"
    by (simp add: refused_def)
  from updateProduct_replace_not_atomic [OF c1, of spec_schema 200 "''p2''" no_change shop replaced]
    updateProduct_replaced s1
  have a: "associations_of (fst replaced) ''p2'' = new_rows ''p2'' [''c1'']
           \<and> associations_but (fst replaced) ''p2'' = associations_but shop ''p2''"
    by blast
  from updateProduct_replace_not_atomic [OF c9, of spec_schema 200 "''p2''" no_change shop refused]
    updateProduct_refused s2
  have b: "fst refused = after_delete 200 ''p2'' no_change shop
           \<and> associations_of (after_delete 200 ''p2'' no_change shop) ''p2'' = []"
    by blast
  have n: "new_rows ''p2'' [''c1''] = [\<lparr>pc_productId = ''p2'', pc_categoryId = ''c1''\<rparr>]"
    by (simp add: new_rows_def)
  from c1 c9 a b n updateProduct_replaced updateProduct_refused show ?thesis by simp
qed

section \<open>Creating a product\<close>

lemma run_create:
  "newId \<notin> set (map p_id (products db)) \<Longrightarrow>
   run (createProduct_statements sch newId now v cids) db =
     (if cids = [] then (after_insert newId now v db, None)
      else (case insert_productCategories sch (new_rows newId cids) (after_insert newId now v db) of
              Inl e \<Rightarrow> (after_insert newId now v db, Some e)
            | Inr db' \<Rightarrow> (db', None)))"
  by (simp add: createProduct_statements_def insert_product_def after_insert_def split: sum.splits)

lemma distinct_new_rows: "distinct (map pair_of (new_rows i cs)) = distinct cs"
  by (induction cs) (auto simp: new_rows_def pair_of_def)

lemma new_rows_fresh:
  "associations_of db i = [] \<Longrightarrow>
     \<not> list_ex (\<lambda>r. pair_of r \<in> set (map pair_of (productCategories db))) (new_rows i cs)"
  by (auto simp: list_ex_iff new_rows_def pair_of_def associations_of_def filter_empty_conv)

lemma new_rows_references:
  "list_all (category_exists db) cs \<Longrightarrow>
     list_all (references_ok (after_insert i now v db)) (new_rows i cs)"
  by (auto simp: list_all_iff new_rows_def references_ok_def after_insert_def category_exists_def)

lemma insert_duplicates_refused:
  "uniquePair sch \<Longrightarrow> \<not> distinct cs \<Longrightarrow>
     insert_productCategories sch (new_rows i cs) db = Inl UniqueViolation"
  by (simp add: insert_productCategories_def distinct_new_rows)

lemma insert_accepted:
  assumes "list_all (category_exists db) cs"
    and "\<not> uniquePair sch \<or> (distinct cs \<and> associations_of db i = [])"
  shows "insert_productCategories sch (new_rows i cs) (after_insert i now v db) =
     Inr ((after_insert i now v db)\<lparr>productCategories := productCategories db @ new_rows i cs\<rparr>)"
proof -
  have "productCategories (after_insert i now v db) = productCategories db"
    by (simp add: after_insert_def)
  moreover have "associations_of (after_insert i now v db) i = associations_of db i"
    by (simp add: after_insert_def associations_of_def)
  ultimately show ?thesis
    using assms new_rows_references [OF assms(1), of i now v]
      new_rows_fresh [of "after_insert i now v db" i cs]
    by (auto simp: insert_productCategories_def distinct_new_rows)
qed

text \<open>
  C8, as amended. \<open>createProduct\<close> with a new id always has an outcome. Whenever it
  returns, the association rows under the new id are the rows that were there before
  followed by one row per element of the supplied list, in the order of the list,
  duplicates included: nothing removes a repeated id. With the
  uniqueness constraint on the pair, a list with a repeated id makes \<open>createProduct\<close> fail
  with the store's error, after the product row is stored and with no association row.
  It returns when the ids name existing categories and either the pair is not constrained
  or the list has no repeated id and no row was there under the new id.
\<close>

theorem createProduct_one_row_per_element:
  "newId \<notin> set (map p_id (products db)) \<Longrightarrow>
     (\<exists>out. createProduct sch newId now v cids db out)
     \<and> (createProduct sch newId now v cids db out \<and> snd out = Inr r \<longrightarrow>
          associations_of (fst out) newId = associations_of db newId @ new_rows newId cids)
     \<and> (createProduct sch newId now v cids db out \<and> uniquePair sch \<and> \<not> distinct cids \<longrightarrow>
          out = (after_insert newId now v db, Inl UniqueViolation))
     \<and> (createProduct sch newId now v cids db out \<and> list_all (category_exists db) cids
          \<and> (\<not> uniquePair sch \<or> (distinct cids \<and> associations_of db newId = [])) \<longrightarrow>
          (\<exists>res. snd out = Inr res))"
proof -
  assume fresh: "newId \<notin> set (map p_id (products db))"
  let ?sts = "createProduct_statements sch newId now v cids"
  let ?db1 = "after_insert newId now v db"
  let ?ins = "insert_productCategories sch (new_rows newId cids) ?db1"
  note run = run_create [OF fresh, of sch now v cids]
  have a1: "associations_of ?db1 newId = associations_of db newId"
    by (simp add: after_insert_def associations_of_def)
  have 1: "\<exists>out. createProduct sch newId now v cids db out"
    using then_getProduct_total by (simp add: createProduct_def)
  have 2: "associations_of (fst out) newId = associations_of db newId @ new_rows newId cids"
    if c: "createProduct sch newId now v cids db out" and s: "snd out = Inr r"
  proof (cases "cids = []")
    case True
    with c run a1 show ?thesis
      using then_getProduct_fst [of ?sts newId db out]
      by (simp add: createProduct_def new_rows_def)
  next
    case False
    show ?thesis
    proof (cases ?ins)
      case (Inl err)
      with c s False run show ?thesis
        using then_getProduct_failed [of ?sts newId db out err] by (simp add: createProduct_def)
    next
      case (Inr db')
      with insert_cases [of sch "new_rows newId cids" ?db1]
      have "db' = ?db1\<lparr>productCategories := productCategories ?db1 @ new_rows newId cids\<rparr>"
        by auto
      moreover from c False Inr run have "fst out = db'"
        using then_getProduct_fst [of ?sts newId db out] by (simp add: createProduct_def)
      ultimately show ?thesis
        using a1 by (simp add: associations_of_def)
    qed
  qed
  have 3: "out = (?db1, Inl UniqueViolation)"
    if c: "createProduct sch newId now v cids db out" and u: "uniquePair sch" and d: "\<not> distinct cids"
  proof -
    from d have "cids \<noteq> []" by auto
    with run insert_duplicates_refused [OF u d, of newId ?db1]
    have "run ?sts db = (?db1, Some UniqueViolation)" by simp
    with c show ?thesis by (simp add: createProduct_def then_getProduct_def)
  qed
  have 4: "\<exists>res. snd out = Inr res"
    if c: "createProduct sch newId now v cids db out" and e: "list_all (category_exists db) cids"
      and u: "\<not> uniquePair sch \<or> (distinct cids \<and> associations_of db newId = [])"
  proof -
    from run insert_accepted [OF e u, of now v]
    have "snd (run ?sts db) = None" by simp
    with c show ?thesis
      using then_getProduct_ok [of ?sts newId db out] by (simp add: createProduct_def)
  qed
  from 1 2 3 4 show ?thesis by blast
qed


lemma p3_fresh: "''p3'' \<notin> set (map p_id (products shop))"
  by (simp add: shop_simps)

lemma after_insert_shop: "after_insert ''p3'' 300 gizmo shop = shop_with_gizmo"
  by (simp add: after_insert_def gizmo_def shop_with_gizmo_def gizmo_row_def shop_def)

lemma createProduct_rejected:
  "createProduct spec_schema ''p3'' 300 gizmo [''c1'', ''c1''] shop rejected"
proof -
  have "insert_productCategories spec_schema (new_rows ''p3'' [''c1'', ''c1'']) shop_with_gizmo
          = Inl UniqueViolation"
    by (rule insert_duplicates_refused) (simp_all add: spec_schema_def)
  then have "run (createProduct_statements spec_schema ''p3'' 300 gizmo [''c1'', ''c1'']) shop
               = (shop_with_gizmo, Some UniqueViolation)"
    by (simp add: run_create [OF p3_fresh] after_insert_shop)
  then show ?thesis
    by (simp add: createProduct_def then_getProduct_def rejected_def)
qed

lemma shop_categories_exist: "list_all (category_exists shop) [''c1'', ''c1'']"
  "list_all (category_exists shop) [''c1'', ''c2'']"
  by (simp_all add: category_exists_def shop_simps)

lemma getProduct_gizmo:
  "productCategories db = productCategories shop @ rows \<Longrightarrow>
   products db = [widget, gadget, gizmo_row] \<Longrightarrow> categories db = [tools, electronics] \<Longrightarrow>
     getProduct db ''p3''
       (Some \<lparr>pwc_product = gizmo_row, pwc_categories = productCats_rows db ''p3''\<rparr>)"
  using getProduct_SomeI [of "''p3''" db gizmo_row "[]"]
  by (simp add: shop_simps gizmo_row_def)

lemma createProduct_doubled:
  "createProduct no_unique ''p3'' 300 gizmo [''c1'', ''c1''] shop doubled"
proof -
  let ?db = "fst doubled"
  have "insert_productCategories no_unique (new_rows ''p3'' [''c1'', ''c1''])
          (after_insert ''p3'' 300 gizmo shop) = Inr ?db"
    using insert_accepted [OF shop_categories_exist(1), of no_unique "''p3''" 300 gizmo]
    by (simp add: no_unique_def after_insert_shop doubled_def new_rows_def twice_c1_def)
  then have r: "run (createProduct_statements no_unique ''p3'' 300 gizmo [''c1'', ''c1'']) shop
               = (?db, None)"
    by (simp add: run_create [OF p3_fresh])
  have "productCats_rows ?db ''p3'' = [tools, tools]"
    by (simp add: productCats_rows_def doubled_def shop_with_gizmo_def twice_c1_def shop_simps)
  with getProduct_gizmo [of ?db twice_c1]
  have "getProduct ?db ''p3'' (Some \<lparr>pwc_product = gizmo_row, pwc_categories = [tools, tools]\<rparr>)"
    by (simp add: doubled_def shop_with_gizmo_def shop_def)
  with then_getProductI [OF r] show ?thesis
    by (simp add: createProduct_def doubled_def)
qed

lemma createProduct_created:
  "createProduct spec_schema ''p3'' 300 gizmo [''c1'', ''c2''] shop created"
proof -
  let ?db = "fst created"
  let ?rows = "[\<lparr>pc_productId = ''p3'', pc_categoryId = ''c1''\<rparr>,
                \<lparr>pc_productId = ''p3'', pc_categoryId = ''c2''\<rparr>]"
  have "associations_of shop ''p3'' = []"
    by (simp add: associations_of_def shop_def)
  then have "insert_productCategories spec_schema (new_rows ''p3'' [''c1'', ''c2''])
          (after_insert ''p3'' 300 gizmo shop) = Inr ?db"
    using insert_accepted [OF shop_categories_exist(2), of spec_schema "''p3''" 300 gizmo]
    by (simp add: after_insert_shop created_def new_rows_def)
  then have r: "run (createProduct_statements spec_schema ''p3'' 300 gizmo [''c1'', ''c2'']) shop
               = (?db, None)"
    by (simp add: run_create [OF p3_fresh])
  have "productCats_rows ?db ''p3'' = [tools, electronics]"
    by (simp add: productCats_rows_def created_def shop_with_gizmo_def shop_simps)
  with getProduct_gizmo [of ?db ?rows]
  have "getProduct ?db ''p3''
          (Some \<lparr>pwc_product = gizmo_row, pwc_categories = [tools, electronics]\<rparr>)"
    by (simp add: created_def shop_with_gizmo_def shop_def)
  with then_getProductI [OF r] show ?thesis
    by (simp add: createProduct_def created_def)
qed

text \<open>
  C8 as stated fails on the list \<open>[c1, c1]\<close>: with the uniqueness constraint
  \<open>createProduct\<close> fails with an error, without it the pair is stored twice.
\<close>

theorem createProduct_duplicate_ids_counterexample:
  "createProduct spec_schema ''p3'' 300 gizmo [''c1'', ''c1''] shop rejected
   \<and> snd rejected = Inl UniqueViolation
   \<and> associations_of (fst rejected) ''p3'' = []
   \<and> createProduct no_unique ''p3'' 300 gizmo [''c1'', ''c1''] shop doubled
   \<and> associations_of (fst doubled) ''p3'' = twice_c1
   \<and> \<not> distinct (map pair_of twice_c1)"
proof -
  have 1: "snd rejected = Inl UniqueViolation"
    by (simp add: rejected_def)
  have 2: "associations_of (fst rejected) ''p3'' = []"
    by (simp add: rejected_def associations_of_def shop_with_gizmo_def shop_def)
  have 3: "associations_of (fst doubled) ''p3'' = twice_c1"
    by (simp add: doubled_def associations_of_def shop_with_gizmo_def shop_def twice_c1_def)
  have 4: "\<not> distinct (map pair_of twice_c1)"
    by (simp add: twice_c1_def pair_of_def)
  from createProduct_rejected createProduct_doubled 1 2 3 4 show ?thesis by blast
qed

theorem createProduct_one_row_per_element_witness:
  "''p3'' \<notin> set (map p_id (products shop))
   \<and> createProduct spec_schema ''p3'' 300 gizmo [''c1'', ''c2''] shop created
   \<and> associations_of (fst created) ''p3'' =
       [\<lparr>pc_productId = ''p3'', pc_categoryId = ''c1''\<rparr>,
        \<lparr>pc_productId = ''p3'', pc_categoryId = ''c2''\<rparr>]
   \<and> uniquePair spec_schema \<and> \<not> distinct [''c1'', ''c1'']
   \<and> createProduct spec_schema ''p3'' 300 gizmo [''c1'', ''c1''] shop rejected
   \<and> rejected = (after_insert ''p3'' 300 gizmo shop, Inl UniqueViolation)"
proof -
  have s: "snd created = Inr (Some \<lparr>pwc_product = gizmo_row, pwc_categories = [tools, electronics]\<rparr>)"
    by (simp add: created_def)
  from createProduct_one_row_per_element [OF p3_fresh, of spec_schema 300 gizmo "[''c1'', ''c2'']" created]
    createProduct_created s
  have "associations_of (fst created) ''p3'' =
          associations_of shop ''p3'' @ new_rows ''p3'' [''c1'', ''c2'']"
    by blast
  then have a: "associations_of (fst created) ''p3'' =
       [\<lparr>pc_productId = ''p3'', pc_categoryId = ''c1''\<rparr>,
        \<lparr>pc_productId = ''p3'', pc_categoryId = ''c2''\<rparr>]"
    by (simp add: associations_of_def shop_def new_rows_def)
  have u: "uniquePair spec_schema" and d: "\<not> distinct [''c1'', ''c1'']"
    by (simp_all add: spec_schema_def)
  from createProduct_one_row_per_element [OF p3_fresh, of spec_schema 300 gizmo "[''c1'', ''c1'']" rejected]
    createProduct_rejected u d
  have b: "rejected = (after_insert ''p3'' 300 gizmo shop, Inl UniqueViolation)"
    by blast
  from p3_fresh createProduct_created a u d createProduct_rejected b show ?thesis by blast
qed

section \<open>The page and the limit of a listing\<close>






lemma parse_products_query_Inr:
  "parse_products_query q = Inr params \<Longrightarrow>
     params = \<lparr>page = Some (js_or (parseInt_q (q_page q)) (Fin 1)),
               limit = Some (js_or (parseInt_q (q_limit q)) (Fin 10)),
               search = q_search q, categoryId = q_categoryId q,
               categoryIds = categoryIdsArray (q_categoryIds q),
               minPrice = parse_if_present parseFloat (q_minPrice q),
               maxPrice = parse_if_present parseFloat (q_maxPrice q),
               minStock = parse_if_present parseInt (q_minStock q),
               maxStock = parse_if_present parseInt (q_maxStock q),
               sortBy = Some (str_or (q_sortBy q) ''createdAt''),
               sortOrder = Some (str_or (q_sortOrder q) ''desc'')\<rparr>"
  by (simp add: parse_products_query_def Let_def split: if_splits)



lemmas query_simps = parse_products_query_def no_query_def default_params_def parseInt_q_def
  js_or_def str_or_def parse_if_present_def invalid_value_def min_exceeds_max_def
  categoryIdsArray_def isNaN_def js_gt_def





section \<open>The range checks of a listing\<close>

lemma invalid_value_supplied:
  "invalid_value (parse_if_present parse v) = supplied_invalid parse v"
  by (simp add: invalid_value_def parse_if_present_def supplied_invalid_def isNaN_def
      split: option.splits)

lemma min_exceeds_max_supplied:
  "min_exceeds_max (parse_if_present parse lo) (parse_if_present parse hi)
     = supplied_min_exceeds_max parse lo hi"
  by (simp add: min_exceeds_max_def parse_if_present_def supplied_min_exceeds_max_def js_gt_def
      split: option.splits)

lemma parse_products_query_cases:
  "parse_products_query q =
     (if supplied_invalid parseFloat (q_minPrice q)
      then Inl (bad_request ''Invalid minPrice value'')
      else if supplied_invalid parseFloat (q_maxPrice q)
      then Inl (bad_request ''Invalid maxPrice value'')
      else if supplied_min_exceeds_max parseFloat (q_minPrice q) (q_maxPrice q)
      then Inl (bad_request ''minPrice cannot be greater than maxPrice'')
      else if supplied_invalid parseInt (q_minStock q)
      then Inl (bad_request ''Invalid minStock value'')
      else if supplied_invalid parseInt (q_maxStock q)
      then Inl (bad_request ''Invalid maxStock value'')
      else if supplied_min_exceeds_max parseInt (q_minStock q) (q_maxStock q)
      then Inl (bad_request ''minStock cannot be greater than maxStock'')
      else Inr \<lparr>page = Some (js_or (parseInt_q (q_page q)) (Fin 1)),
               limit = Some (js_or (parseInt_q (q_limit q)) (Fin 10)),
               search = q_search q, categoryId = q_categoryId q,
               categoryIds = categoryIdsArray (q_categoryIds q),
               minPrice = parse_if_present parseFloat (q_minPrice q),
               maxPrice = parse_if_present parseFloat (q_maxPrice q),
               minStock = parse_if_present parseInt (q_minStock q),
               maxStock = parse_if_present parseInt (q_maxStock q),
               sortBy = Some (str_or (q_sortBy q) ''createdAt''),
               sortOrder = Some (str_or (q_sortOrder q) ''desc'')\<rparr>)"
  by (simp add: parse_products_query_def Let_def invalid_value_supplied min_exceeds_max_supplied)





lemma route_get_products_not_400:
  "parse_products_query q = Inr params \<Longrightarrow>
     \<not> (\<exists>resp. route_get_products db q resp \<and> status resp = 400)"
  by (auto simp: route_get_products_def server_error_def split: sum.splits)



section \<open>The product listing\<close>

lemma attached_with_categories: "attached db p (with_categories db p)"
  by (simp add: attached_def with_categories_def unordered_def)

lemma attached_all: "list_all2 (attached db) xs (map (with_categories db) xs)"
  by (induction xs) (simp_all add: attached_with_categories)

lemma attached_products: "list_all2 (attached db) xs ps \<Longrightarrow> map pwc_product ps = xs"
  by (induction xs ps rule: list_all2_induct) (simp_all add: attached_def)

lemma getProducts_iff:
  assumes "sortColumn (or_default (sortBy params) ''createdAt'') = Some col"
    and "row_count (or_default (limit params) (Fin 10)) = Inr l"
    and "row_count (js_mul (js_sub (or_default (page params) (Fin 1)) (Fin 1))
           (or_default (limit params) (Fin 10))) = Inr off"
  shows "getProducts db params out =
     (\<exists>ordered ps.
        order_by col (or_default (sortOrder params) ''desc'' = ''asc'') (query_rows db params) ordered
        \<and> list_all2 (attached db) (take l (drop off ordered)) ps
        \<and> out = Inr \<lparr>res_products = ps, res_total = count_distinct_id (query_rows db params)\<rparr>)"
  using assms by (simp add: getProducts_def Let_def)

lemma getProducts_failed_iff:
  "getProducts db params (Inl e) =
     (case sortColumn (or_default (sortBy params) ''createdAt'') of
        None \<Rightarrow> e = UndefinedSortColumn
      | Some col \<Rightarrow>
          (case row_count (or_default (limit params) (Fin 10)) of
             Inl e' \<Rightarrow> e = e'
           | Inr l \<Rightarrow>
               (case row_count (js_mul (js_sub (or_default (page params) (Fin 1)) (Fin 1))
                        (or_default (limit params) (Fin 10))) of
                  Inl e' \<Rightarrow> e = e'
                | Inr off \<Rightarrow> False)))"
  by (auto simp: getProducts_def Let_def split: option.splits sum.splits)

lemma getProducts_Inr:
  assumes "getProducts db params (Inr r)"
  obtains col l off ordered where
    "sortColumn (or_default (sortBy params) ''createdAt'') = Some col"
    "row_count (or_default (limit params) (Fin 10)) = Inr l"
    "row_count (js_mul (js_sub (or_default (page params) (Fin 1)) (Fin 1))
           (or_default (limit params) (Fin 10))) = Inr off"
    "order_by col (or_default (sortOrder params) ''desc'' = ''asc'') (query_rows db params) ordered"
    "list_all2 (attached db) (take l (drop off ordered)) (res_products r)"
    "res_total r = count_distinct_id (query_rows db params)"
  using assms by (auto simp: getProducts_def Let_def split: option.splits sum.splits)

text \<open>Sorted arrangements of the same rows carry the same keys.\<close>

lemma same_keys_asc:
  fixes k :: "'a \<Rightarrow> 'k::linorder"
  assumes "mset xs = mset ys" "sorted_wrt (\<lambda>p q. k p \<le> k q) xs" "sorted_wrt (\<lambda>p q. k p \<le> k q) ys"
  shows "map k xs = map k ys"
proof -
  have "mset (map k xs) = mset (map k ys)" using assms(1) by simp
  moreover have "sorted (map k xs)" "sorted (map k ys)"
    using assms(2,3) by (simp_all add: sorted_wrt_map)
  ultimately show ?thesis
    using properties_for_sort [of "map k xs" "map k ys"] properties_for_sort [of "map k ys" "map k ys"]
    by simp
qed

lemma same_keys_desc:
  fixes k :: "'a \<Rightarrow> 'k::linorder"
  assumes "mset xs = mset ys" "sorted_wrt (\<lambda>p q. k q \<le> k p) xs" "sorted_wrt (\<lambda>p q. k q \<le> k p) ys"
  shows "map k xs = map k ys"
proof -
  have "map k (rev xs) = map k (rev ys)"
    using assms by (intro same_keys_asc) (simp_all add: sorted_wrt_rev)
  then have "rev (map k xs) = rev (map k ys)" by (simp add: rev_map)
  then show ?thesis by simp
qed

lemma same_keys:
  fixes k :: "'a \<Rightarrow> 'k::linorder"
  assumes "mset xs = mset ys"
    and "sorted_wrt (\<lambda>p q. if a then k p \<le> k q else k q \<le> k p) xs"
    and "sorted_wrt (\<lambda>p q. if a then k p \<le> k q else k q \<le> k p) ys"
  shows "list_all2 (\<lambda>p q. k p \<le> k q \<and> k q \<le> k p) xs ys"
proof -
  have "map k xs = map k ys"
    using assms same_keys_asc [of xs ys k] same_keys_desc [of xs ys k] by (cases a) simp_all
  then have "list_all2 (\<lambda>p q. k p = k q) xs ys"
    by (simp add: list_all2_conv_all_nth map_equality_iff)
  then show ?thesis
    by (rule list_all2_mono) simp
qed

lemma dir_le_keys:
  "dir_le Col_name a = (\<lambda>p q. if a then p_name p \<le> p_name q else p_name q \<le> p_name p)"
  "dir_le Col_price a = (\<lambda>p q. if a then p_price p \<le> p_price q else p_price q \<le> p_price p)"
  "dir_le Col_stockQuantity a =
     (\<lambda>p q. if a then p_stockQuantity p \<le> p_stockQuantity q
            else p_stockQuantity q \<le> p_stockQuantity p)"
  "dir_le Col_createdAt a =
     (\<lambda>p q. if a then p_createdAt p \<le> p_createdAt q else p_createdAt q \<le> p_createdAt p)"
  by (simp_all add: fun_eq_iff dir_le_def)

lemma order_by_same_keys:
  assumes "order_by col a rows xs" "order_by col a rows ys"
  shows "list_all2 (col_eq col) xs ys"
proof -
  from assms have m: "mset xs = mset ys" by (simp add: order_by_def)
  show ?thesis
  proof (cases col)
    case Col_name
    with assms same_keys [OF m, of a p_name] show ?thesis
      by (simp add: order_by_def dir_le_keys col_eq_def [abs_def])
  next
    case Col_price
    with assms same_keys [OF m, of a p_price] show ?thesis
      by (simp add: order_by_def dir_le_keys col_eq_def [abs_def])
  next
    case Col_stockQuantity
    with assms same_keys [OF m, of a p_stockQuantity] show ?thesis
      by (simp add: order_by_def dir_le_keys col_eq_def [abs_def])
  next
    case Col_createdAt
    with assms same_keys [OF m, of a p_createdAt] show ?thesis
      by (simp add: order_by_def dir_le_keys col_eq_def [abs_def])
  qed
qed

lemma arranged:
  fixes k :: "'a \<Rightarrow> 'k::linorder"
  shows "\<exists>out. mset out = mset rows
           \<and> sorted_wrt (\<lambda>p q. if a then k p \<le> k q else k q \<le> k p) out"
proof (cases a)
  case True
  have "sorted_wrt (\<lambda>p q. k p \<le> k q) (sort_key k rows)"
    using sorted_sort_key [of k rows] by (simp add: sorted_wrt_map)
  with True show ?thesis
    by (intro exI [of _ "sort_key k rows"]) simp
next
  case False
  have "sorted_wrt (\<lambda>p q. k q \<le> k p) (rev (sort_key k rows))"
    using sorted_sort_key [of k rows] by (simp add: sorted_wrt_map sorted_wrt_rev)
  with False show ?thesis
    by (intro exI [of _ "rev (sort_key k rows)"]) simp
qed

lemma order_by_total: "\<exists>out. order_by col a rows out"
  using arranged [of rows a p_name] arranged [of rows a p_price]
    arranged [of rows a p_stockQuantity] arranged [of rows a p_createdAt]
  by (cases col) (simp_all add: order_by_def dir_le_keys)

lemma order_by_unique:
  assumes xs: "order_by col a rows xs" and ys: "order_by col a rows ys"
    and nt: "no_ties col rows"
  shows "xs = ys"
proof -
  have k: "list_all2 (col_eq col) xs ys"
    using order_by_same_keys [OF xs ys] .
  have sx: "set xs = set rows" and sy: "set ys = set rows"
    using xs ys by (auto simp: order_by_def dest: mset_eq_setD)
  have "xs ! i = ys ! i" if "i < length xs" for i
  proof -
    from k that have "col_eq col (xs ! i) (ys ! i)" "i < length ys"
      by (auto simp: list_all2_conv_all_nth)
    moreover from this that sx sy have "xs ! i \<in> set rows" "ys ! i \<in> set rows"
      using nth_mem by blast+
    ultimately show ?thesis
      using nt by (simp add: no_ties_def)
  qed
  moreover from k have "length xs = length ys"
    by (rule list_all2_lengthD)
  ultimately show ?thesis
    by (simp add: list_eq_iff_nth_eq)
qed

lemma getProducts_total: "\<exists>out. getProducts db params out"
proof (cases "sortColumn (or_default (sortBy params) ''createdAt'')")
  case None
  then have "getProducts db params (Inl UndefinedSortColumn)"
    by (simp add: getProducts_def)
  then show ?thesis ..
next
  case (Some col)
  show ?thesis
  proof (cases "row_count (or_default (limit params) (Fin 10))")
    case (Inl e)
    with Some have "getProducts db params (Inl e)"
      by (simp add: getProducts_def)
    then show ?thesis ..
  next
    case l: (Inr l)
    show ?thesis
    proof (cases "row_count (js_mul (js_sub (or_default (page params) (Fin 1)) (Fin 1))
           (or_default (limit params) (Fin 10)))")
      case (Inl e)
      with Some l have "getProducts db params (Inl e)"
        by (simp add: getProducts_def Let_def)
      then show ?thesis ..
    next
      case (Inr off)
      obtain ordered where
        "order_by col (or_default (sortOrder params) ''desc'' = ''asc'') (query_rows db params) ordered"
        using order_by_total by blast
      then show ?thesis
        using attached_all [of db "take l (drop off ordered)"]
        unfolding getProducts_iff [OF Some l Inr] by blast
    qed
  qed
qed

text \<open>
  C9, as amended. Two executions of the listing on the same store and parameters return
  the same total, and pages that agree position by position on the value of the sort
  column, each sorted on that column in the requested direction. When no two different
  matching rows have the same value in the sort column, the two pages list the same
  products in the same order. Rows that tie on the sort column are in no fixed order: the
  query orders by the sort column and by nothing else.
\<close>

theorem getProducts_order_up_to_ties:
  "getProducts db params (Inr r1) \<and> getProducts db params (Inr r2)
     \<and> sortColumn (or_default (sortBy params) ''createdAt'') = Some col \<longrightarrow>
       res_total r1 = res_total r2
       \<and> list_all2 (\<lambda>a b. col_eq col (pwc_product a) (pwc_product b))
           (res_products r1) (res_products r2)
       \<and> sorted_wrt (dir_le col (or_default (sortOrder params) ''desc'' = ''asc''))
           (map pwc_product (res_products r1))
       \<and> (no_ties col (query_rows db params) \<longrightarrow>
            map pwc_product (res_products r1) = map pwc_product (res_products r2))"
proof (intro impI, elim conjE)
  assume g1: "getProducts db params (Inr r1)" and g2: "getProducts db params (Inr r2)"
    and col: "sortColumn (or_default (sortBy params) ''createdAt'') = Some col"
  let ?a = "or_default (sortOrder params) ''desc'' = ''asc''"
  let ?rows = "query_rows db params"
  from g1 col obtain l off o1 where 1:
    "row_count (or_default (limit params) (Fin 10)) = Inr l"
    "row_count (js_mul (js_sub (or_default (page params) (Fin 1)) (Fin 1))
           (or_default (limit params) (Fin 10))) = Inr off"
    "order_by col ?a ?rows o1"
    "list_all2 (attached db) (take l (drop off o1)) (res_products r1)"
    "res_total r1 = count_distinct_id ?rows"
    by (auto elim!: getProducts_Inr)
  from g2 col 1(1,2) obtain o2 where 2:
    "order_by col ?a ?rows o2"
    "list_all2 (attached db) (take l (drop off o2)) (res_products r2)"
    "res_total r2 = count_distinct_id ?rows"
    by (auto elim!: getProducts_Inr)
  have p1: "map pwc_product (res_products r1) = take l (drop off o1)"
    and p2: "map pwc_product (res_products r2) = take l (drop off o2)"
    using attached_products 1(4) 2(2) by blast+
  have "list_all2 (col_eq col) (take l (drop off o1)) (take l (drop off o2))"
    using order_by_same_keys [OF 1(3) 2(1)] by simp
  then have "list_all2 (col_eq col) (map pwc_product (res_products r1))
               (map pwc_product (res_products r2))"
    by (simp add: p1 p2)
  then have keys: "list_all2 (\<lambda>a b. col_eq col (pwc_product a) (pwc_product b))
           (res_products r1) (res_products r2)"
    by (simp add: list_all2_map1 list_all2_map2)
  have srt: "sorted_wrt (dir_le col ?a) (map pwc_product (res_products r1))"
    using 1(3) by (simp add: p1 order_by_def)
  have same: "map pwc_product (res_products r1) = map pwc_product (res_products r2)"
    if "no_ties col ?rows"
    using order_by_unique [OF 1(3) 2(1) that] by (simp add: p1 p2)
  from 1(5) 2(3) keys srt same
  show "res_total r1 = res_total r2
       \<and> list_all2 (\<lambda>a b. col_eq col (pwc_product a) (pwc_product b))
           (res_products r1) (res_products r2)
       \<and> sorted_wrt (dir_le col ?a) (map pwc_product (res_products r1))
       \<and> (no_ties col ?rows \<longrightarrow>
            map pwc_product (res_products r1) = map pwc_product (res_products r2))"
    by simp
qed

lemma getProductsI:
  assumes "sortColumn (or_default (sortBy params) ''createdAt'') = Some col"
    and "row_count (or_default (limit params) (Fin 10)) = Inr l"
    and "row_count (js_mul (js_sub (or_default (page params) (Fin 1)) (Fin 1))
           (or_default (limit params) (Fin 10))) = Inr off"
    and "order_by col (or_default (sortOrder params) ''desc'' = ''asc'') (query_rows db params) ordered"
    and "list_all2 (attached db) (take l (drop off ordered)) ps"
    and "n = count_distinct_id (query_rows db params)"
  shows "getProducts db params (Inr \<lparr>res_products = ps, res_total = n\<rparr>)"
  unfolding getProducts_iff [OF assms(1-3)] using assms(4-6) by blast

lemma attached_shop:
  "attached shop widget widget_with" "attached shop gadget gadget_with"
  "attached shop gadget gadget_with_alt"
  by (simp_all add: attached_def unordered_def productCats_rows_def widget_with_def
      gadget_with_def gadget_with_alt_def shop_simps)

lemma first_page:
  "row_count (Fin 10) = Inr 10" "row_count (Fin 0) = Inr 0"
  by (simp_all add: row_count_def)

lemma default_params_fields:
  "page default_params = Some (Fin 1)" "limit default_params = Some (Fin 10)"
  "sortBy default_params = Some ''createdAt''" "sortOrder default_params = Some ''desc''"
  by (simp_all add: default_params_def)

lemma by_price_fields:
  "page by_price = Some (Fin 1)" "limit by_price = Some (Fin 10)"
  "sortBy by_price = Some ''price''" "sortOrder by_price = Some ''desc''"
  by (simp_all add: by_price_def default_params_def)

lemma query_rows_all:
  "query_rows shop default_params = [widget, gadget]" "query_rows shop by_price = [widget, gadget]"
  by (simp_all add: query_rows_def categoriesToFilter_def product_conditions_def
      default_params_def by_price_def shop_def)

lemma count_shop: "count_distinct_id [widget, gadget] = 2"
  by (simp add: count_distinct_id_def widget_def gadget_def)

lemma getProducts_default_wg: "getProducts shop default_params (Inr listing_wg)"
  unfolding listing_wg_def
proof (rule getProductsI [where col = Col_createdAt and l = 10 and off = 0
        and ordered = "[widget, gadget]"])
  show "order_by Col_createdAt (or_default (sortOrder default_params) ''desc'' = ''asc'')
          (query_rows shop default_params) [widget, gadget]"
    by (simp add: query_rows_all order_by_def dir_le_def widget_def gadget_def)
qed (simp_all add: default_params_fields or_default_def sortColumn_def first_page attached_shop
      query_rows_all count_shop)

lemma getProducts_default_gw: "getProducts shop default_params (Inr listing_gw)"
  unfolding listing_gw_def
proof (rule getProductsI [where col = Col_createdAt and l = 10 and off = 0
        and ordered = "[gadget, widget]"])
  show "order_by Col_createdAt (or_default (sortOrder default_params) ''desc'' = ''asc'')
          (query_rows shop default_params) [gadget, widget]"
    by (simp add: query_rows_all order_by_def dir_le_def widget_def gadget_def)
qed (simp_all add: default_params_fields or_default_def sortColumn_def first_page attached_shop
      query_rows_all count_shop)

lemma order_by_price_desc:
  "order_by Col_price False [widget, gadget] [gadget, widget]"
  by (simp add: order_by_def dir_le_def widget_def gadget_def)

lemma getProducts_by_price_gw: "getProducts shop by_price (Inr listing_gw)"
  unfolding listing_gw_def
  by (rule getProductsI [where col = Col_price and l = 10 and off = 0
        and ordered = "[gadget, widget]"])
     (simp_all add: by_price_fields or_default_def sortColumn_def first_page
        attached_shop query_rows_all count_shop order_by_price_desc)

lemma getProducts_by_price_gw_alt: "getProducts shop by_price (Inr listing_gw_alt)"
  unfolding listing_gw_alt_def
  by (rule getProductsI [where col = Col_price and l = 10 and off = 0
        and ordered = "[gadget, widget]"])
     (simp_all add: by_price_fields or_default_def sortColumn_def first_page
        attached_shop query_rows_all count_shop order_by_price_desc)

text \<open>
  C9 as stated fails on the example store, whose two products were created at the same
  time: listed by \<open>createdAt\<close>, the widget first and the gadget first are both results.
\<close>

theorem getProducts_same_order_counterexample:
  "getProducts shop default_params (Inr listing_wg)
   \<and> getProducts shop default_params (Inr listing_gw)
   \<and> map pwc_product (res_products listing_wg) = [widget, gadget]
   \<and> map pwc_product (res_products listing_gw) = [gadget, widget]
   \<and> widget \<noteq> gadget
   \<and> p_createdAt widget = p_createdAt gadget"
proof -
  have "map pwc_product (res_products listing_wg) = [widget, gadget]"
    "map pwc_product (res_products listing_gw) = [gadget, widget]"
    by (simp_all add: listing_wg_def listing_gw_def widget_with_def gadget_with_def)
  moreover have "widget \<noteq> gadget" "p_createdAt widget = p_createdAt gadget"
    by (simp_all add: widget_def gadget_def)
  ultimately show ?thesis
    using getProducts_default_wg getProducts_default_gw by blast
qed

theorem getProducts_order_up_to_ties_witness:
  "getProducts shop by_price (Inr listing_gw)
   \<and> getProducts shop by_price (Inr listing_gw_alt)
   \<and> sortColumn (or_default (sortBy by_price) ''createdAt'') = Some Col_price
   \<and> no_ties Col_price (query_rows shop by_price)
   \<and> listing_gw \<noteq> listing_gw_alt
   \<and> res_total listing_gw = res_total listing_gw_alt
   \<and> map pwc_product (res_products listing_gw) = map pwc_product (res_products listing_gw_alt)
   \<and> sorted_wrt (dir_le Col_price (or_default (sortOrder by_price) ''desc'' = ''asc''))
        (map pwc_product (res_products listing_gw))"
proof -
  have c: "sortColumn (or_default (sortBy by_price) ''createdAt'') = Some Col_price"
    by (simp add: by_price_fields or_default_def sortColumn_def)
  have n: "no_ties Col_price (query_rows shop by_price)"
    by (simp add: query_rows_all no_ties_def col_eq_def widget_def gadget_def)
  have d: "listing_gw \<noteq> listing_gw_alt"
    by (simp add: listing_gw_def listing_gw_alt_def gadget_with_def gadget_with_alt_def
        tools_def electronics_def)
  from getProducts_order_up_to_ties [of shop by_price listing_gw listing_gw_alt Col_price]
    getProducts_by_price_gw getProducts_by_price_gw_alt c n
  have "res_total listing_gw = res_total listing_gw_alt
   \<and> map pwc_product (res_products listing_gw) = map pwc_product (res_products listing_gw_alt)
   \<and> sorted_wrt (dir_le Col_price (or_default (sortOrder by_price) ''desc'' = ''asc''))
        (map pwc_product (res_products listing_gw))"
    by blast
  with getProducts_by_price_gw getProducts_by_price_gw_alt c n d show ?thesis by blast
qed

section \<open>The sort parameters of a listing\<close>

lemma query_rows_sortOrder: "query_rows db (params\<lparr>sortOrder := x\<rparr>) = query_rows db params"
proof -
  have p: "product_conditions (params\<lparr>sortOrder := x\<rparr>) = product_conditions params"
    by (simp add: fun_eq_iff product_conditions_def)
  have c: "categoriesToFilter (params\<lparr>sortOrder := x\<rparr>) = categoriesToFilter params"
    by (simp add: categoriesToFilter_def split: option.splits list.splits)
  show ?thesis
    unfolding query_rows_def p c by (rule refl)
qed

lemma getProducts_sortOrder_not_asc:
  assumes "sortOrder params = Some s" "s \<noteq> ''asc''"
  shows "getProducts db params out = getProducts db (params\<lparr>sortOrder := Some ''desc''\<rparr>) out"
proof -
  have o: "(or_default (sortOrder (params\<lparr>sortOrder := Some ''desc''\<rparr>)) ''desc'' = ''asc'')
             = (or_default (sortOrder params) ''desc'' = ''asc'')"
    using assms by (simp add: or_default_def)
  have f: "page (params\<lparr>sortOrder := Some ''desc''\<rparr>) = page params"
    "limit (params\<lparr>sortOrder := Some ''desc''\<rparr>) = limit params"
    "sortBy (params\<lparr>sortOrder := Some ''desc''\<rparr>) = sortBy params"
    by simp_all
  show ?thesis
    unfolding getProducts_def Let_def query_rows_sortOrder f o by (rule refl)
qed

text \<open>
  C4, as amended. Whether the handler answers 400 does not depend on \<open>sortBy\<close> and
  \<open>sortOrder\<close>: changing them to any values changes no rejection. When the handler
  reaches the storage call it passes \<open>sortBy\<close> and \<open>sortOrder\<close> as they came, with
  \<open>createdAt\<close> and \<open>desc\<close> for an absent or empty value. In the storage layer every
  \<open>sortOrder\<close> other than \<open>asc\<close> has exactly the outcomes of \<open>desc\<close>.
\<close>

theorem sort_parameters_not_validated:
  "(parse_products_query (q\<lparr>q_sortBy := a, q_sortOrder := b\<rparr>) = Inl early
      \<longleftrightarrow> parse_products_query q = Inl early)
   \<and> (parse_products_query q = Inr params \<longrightarrow>
         sortBy params = Some (str_or (q_sortBy q) ''createdAt'')
         \<and> sortOrder params = Some (str_or (q_sortOrder q) ''desc'')
         \<and> (q_sortBy q = None \<or> q_sortBy q = Some [] \<longrightarrow> sortBy params = Some ''createdAt'')
         \<and> (q_sortOrder q = None \<or> q_sortOrder q = Some [] \<longrightarrow> sortOrder params = Some ''desc''))
   \<and> (sortOrder params' = Some s \<and> s \<noteq> ''asc'' \<longrightarrow>
         getProducts db params' out = getProducts db (params'\<lparr>sortOrder := Some ''desc''\<rparr>) out)"
proof -
  have 1: "parse_products_query (q\<lparr>q_sortBy := a, q_sortOrder := b\<rparr>) = Inl early
      \<longleftrightarrow> parse_products_query q = Inl early"
    by (simp add: parse_products_query_cases)
  have 2: "sortBy params = Some (str_or (q_sortBy q) ''createdAt'')
         \<and> sortOrder params = Some (str_or (q_sortOrder q) ''desc'')
         \<and> (q_sortBy q = None \<or> q_sortBy q = Some [] \<longrightarrow> sortBy params = Some ''createdAt'')
         \<and> (q_sortOrder q = None \<or> q_sortOrder q = Some [] \<longrightarrow> sortOrder params = Some ''desc'')"
    if "parse_products_query q = Inr params"
    using parse_products_query_Inr [OF that] by (auto simp: str_or_def)
  from 1 2 getProducts_sortOrder_not_asc [of params' s db out] show ?thesis by blast
qed

lemma parse_order_sideways: "parse_products_query order_sideways = Inr sideways_params"
  by (simp add: order_sideways_def sideways_params_def by_price_def query_simps)

lemma parse_sort_bogus:
  "parse_products_query sort_bogus = Inr (default_params\<lparr>sortBy := Some ''bogus''\<rparr>)"
  by (simp add: sort_bogus_def query_simps)

lemma sideways_is_desc: "sideways_params\<lparr>sortOrder := Some ''desc''\<rparr> = by_price"
  by (simp add: sideways_params_def by_price_def default_params_def)

lemma getProducts_sideways: "getProducts shop sideways_params (Inr listing_gw)"
  using getProducts_sortOrder_not_asc [of sideways_params "''sideways''" shop "Inr listing_gw"]
    getProducts_by_price_gw
  by (simp add: sideways_is_desc) (simp add: sideways_params_def)

text \<open>
  C4 as stated fails on \<open>sortBy=price&sortOrder=sideways\<close>: the query is executed and
  the products come back by descending price with status 200. No response to it, nor to
  \<open>sortBy=bogus\<close>, has status 400.
\<close>

theorem sort_parameters_rejected_counterexample:
  "parse_products_query order_sideways = Inr sideways_params
   \<and> sortOrder sideways_params = Some ''sideways''
   \<and> route_get_products shop order_sideways \<lparr>status = 200, body = Json_products listing_gw\<rparr>
   \<and> map pwc_product (res_products listing_gw) = [gadget, widget]
   \<and> p_price widget < p_price gadget
   \<and> \<not> (\<exists>resp. route_get_products shop order_sideways resp \<and> status resp = 400)
   \<and> parse_products_query sort_bogus = Inr (default_params\<lparr>sortBy := Some ''bogus''\<rparr>)
   \<and> \<not> (\<exists>resp. route_get_products shop sort_bogus resp \<and> status resp = 400)"
proof -
  have 1: "sortOrder sideways_params = Some ''sideways''"
    by (simp add: sideways_params_def)
  have 2: "route_get_products shop order_sideways \<lparr>status = 200, body = Json_products listing_gw\<rparr>"
    unfolding route_get_products_def parse_order_sideways
    using getProducts_sideways by (auto intro: exI [of _ "Inr listing_gw"])
  have 3: "map pwc_product (res_products listing_gw) = [gadget, widget]"
    by (simp add: listing_gw_def widget_with_def gadget_with_def)
  have 4: "p_price widget < p_price gadget"
    by (simp add: widget_def gadget_def)
  from 1 2 3 4 parse_order_sideways parse_sort_bogus
    route_get_products_not_400 [OF parse_order_sideways, of shop]
    route_get_products_not_400 [OF parse_sort_bogus, of shop]
  show ?thesis by blast
qed

theorem sort_parameters_not_validated_witness:
  "parse_products_query no_query = Inr default_params
   \<and> q_sortBy no_query = None \<and> q_sortOrder no_query = None
   \<and> sortBy default_params = Some ''createdAt'' \<and> sortOrder default_params = Some ''desc''
   \<and> sortOrder sideways_params = Some ''sideways'' \<and> ''sideways'' \<noteq> ''asc''
   \<and> getProducts shop sideways_params (Inr listing_gw)
       = getProducts shop (sideways_params\<lparr>sortOrder := Some ''desc''\<rparr>) (Inr listing_gw)
   \<and> getProducts shop (sideways_params\<lparr>sortOrder := Some ''desc''\<rparr>) (Inr listing_gw)"
proof -
  have p: "parse_products_query no_query = Inr default_params"
    by (simp add: query_simps)
  have n: "q_sortBy no_query = None" "q_sortOrder no_query = None"
    by (simp_all add: no_query_def)
  have s: "sortOrder sideways_params = Some ''sideways''" "''sideways'' \<noteq> ''asc''"
    by (simp_all add: sideways_params_def)
  note t = sort_parameters_not_validated [where q = no_query and params = default_params
      and params' = sideways_params and s = "''sideways''" and db = shop
      and out = "Inr listing_gw"]
  from t p n have a: "sortBy default_params = Some ''createdAt''
      \<and> sortOrder default_params = Some ''desc''"
    by blast
  from t s have b: "getProducts shop sideways_params (Inr listing_gw)
       = getProducts shop (sideways_params\<lparr>sortOrder := Some ''desc''\<rparr>) (Inr listing_gw)"
    by blast
  have c: "getProducts shop (sideways_params\<lparr>sortOrder := Some ''desc''\<rparr>) (Inr listing_gw)"
    using getProducts_by_price_gw by (simp add: sideways_is_desc)
  from p n a s b c show ?thesis by blast
qed

section \<open>The category filter\<close>

lemma set_joined:
  "set (map fst (filter (\<lambda>(p, pc). C p \<and> pc_categoryId pc \<in> set cats)
          [(p, pc). p \<leftarrow> products db, pc \<leftarrow> productCategories db, p_id p = pc_productId pc]))
     = {p \<in> set (products db). C p \<and> has_category_in db cats p}"
  by (auto simp: has_category_in_def list_ex_iff image_iff) force+

lemma query_rows_filtered:
  "categoriesToFilter params = Some cats \<Longrightarrow> cats \<noteq> [] \<Longrightarrow>
     set (query_rows db params)
       = {p \<in> set (products db). product_conditions params p \<and> has_category_in db cats p}"
  unfolding query_rows_def by (simp add: set_joined del: set_map set_filter set_concat)

lemma query_rows_unfiltered:
  "categoriesToFilter params = None \<Longrightarrow>
     query_rows db params = filter (product_conditions params) (products db)"
  by (simp add: query_rows_def)

lemma query_rows_categoryId:
  "categoryIds params = Some (c # cs) \<Longrightarrow>
     query_rows db (params\<lparr>categoryId := x\<rparr>) = query_rows db params"
proof -
  assume a: "categoryIds params = Some (c # cs)"
  have p: "product_conditions (params\<lparr>categoryId := x\<rparr>) = product_conditions params"
    by (simp add: fun_eq_iff product_conditions_def)
  have c: "categoriesToFilter (params\<lparr>categoryId := x\<rparr>) = categoriesToFilter params"
    using a by (simp add: categoriesToFilter_def)
  show ?thesis
    unfolding query_rows_def p c by (rule refl)
qed

lemma count_distinct_id_card: "count_distinct_id rows = card (p_id ` set rows)"
  by (simp add: count_distinct_id_def length_remdups_card_conv)

lemma getProducts_page_rows:
  assumes "getProducts db params (Inr r)"
  shows "set (map pwc_product (res_products r)) \<subseteq> set (query_rows db params)"
    and "res_total r = card (p_id ` set (query_rows db params))"
proof -
  from assms obtain col l off ordered where o:
    "order_by col (or_default (sortOrder params) ''desc'' = ''asc'') (query_rows db params) ordered"
    "list_all2 (attached db) (take l (drop off ordered)) (res_products r)"
    "res_total r = count_distinct_id (query_rows db params)"
    by (auto elim!: getProducts_Inr)
  from o(1) have "set ordered = set (query_rows db params)"
    by (auto simp: order_by_def dest: mset_eq_setD)
  moreover have "set (take l (drop off ordered)) \<subseteq> set ordered"
    by (meson set_take_subset set_drop_subset subset_trans)
  ultimately show "set (map pwc_product (res_products r)) \<subseteq> set (query_rows db params)"
    using attached_products [OF o(2)] by simp
  show "res_total r = card (p_id ` set (query_rows db params))"
    using o(3) by (simp add: count_distinct_id_card)
qed

lemma categoriesToFilter_nonempty: "categoriesToFilter params = Some cats \<Longrightarrow> cats \<noteq> []"
  by (auto simp: categoriesToFilter_def split: option.splits list.splits if_splits)

lemma query_rows_satisfying:
  "set (query_rows db params) = {p \<in> set (products db). satisfies_filter db params p}"
proof (cases "categoriesToFilter params")
  case None
  then show ?thesis
    by (auto simp: query_rows_unfiltered satisfies_filter_def)
next
  case (Some cats)
  with query_rows_filtered [OF Some categoriesToFilter_nonempty [OF Some], of db]
  show ?thesis
    by (simp add: satisfies_filter_def)
qed

lemma getProducts_total_distinct:
  "getProducts db params (Inr r) \<Longrightarrow>
     res_total r = card (p_id ` {p \<in> set (products db). satisfies_filter db params p})"
  using getProducts_page_rows(2) [of db params r] by (simp add: query_rows_satisfying)

text \<open>
  C7, as amended. With a non-empty \<open>categoryIds\<close>, the rows of the listing are the
  products that pass the other conditions and have an association row whose category id
  is in \<open>categoryIds\<close>, and the single \<open>categoryId\<close> changes nothing. With
  \<open>categoryIds\<close> empty or absent and a non-empty \<open>categoryId\<close>, they are the products
  with an association row for that category. With \<open>categoryIds\<close> empty or absent and
  \<open>categoryId\<close> absent or the empty string, there is no category filter. Every page
  holds rows of the listing only, and the total is the number of their ids.
\<close>

theorem category_filter_membership:
  "(categoryIds params = Some (c # cs) \<longrightarrow>
      set (query_rows db params)
        = {p \<in> set (products db). product_conditions params p \<and> has_category_in db (c # cs) p}
      \<and> query_rows db (params\<lparr>categoryId := x\<rparr>) = query_rows db params)
   \<and> ((categoryIds params = None \<or> categoryIds params = Some [])
        \<and> categoryId params = Some c' \<and> c' \<noteq> [] \<longrightarrow>
      set (query_rows db params)
        = {p \<in> set (products db). product_conditions params p \<and> has_category_in db [c'] p})
   \<and> ((categoryIds params = None \<or> categoryIds params = Some [])
        \<and> (categoryId params = None \<or> categoryId params = Some []) \<longrightarrow>
      query_rows db params = filter (product_conditions params) (products db))
   \<and> (getProducts db params (Inr r) \<longrightarrow>
        set (map pwc_product (res_products r)) \<subseteq> set (query_rows db params)
        \<and> res_total r = card (p_id ` set (query_rows db params)))"
proof -
  have 1: "set (query_rows db params)
        = {p \<in> set (products db). product_conditions params p \<and> has_category_in db (c # cs) p}
      \<and> query_rows db (params\<lparr>categoryId := x\<rparr>) = query_rows db params"
    if "categoryIds params = Some (c # cs)"
    using that query_rows_filtered [of params "c # cs" db] query_rows_categoryId [of params c cs db x]
    by (simp add: categoriesToFilter_def)
  have 2: "set (query_rows db params)
        = {p \<in> set (products db). product_conditions params p \<and> has_category_in db [c'] p}"
    if "categoryIds params = None \<or> categoryIds params = Some []"
      "categoryId params = Some c'" "c' \<noteq> []"
    using that query_rows_filtered [of params "[c']" db]
    by (auto simp: categoriesToFilter_def)
  have 3: "query_rows db params = filter (product_conditions params) (products db)"
    if "categoryIds params = None \<or> categoryIds params = Some []"
      "categoryId params = None \<or> categoryId params = Some []"
    using that by (intro query_rows_unfiltered) (auto simp: categoriesToFilter_def)
  from 1 2 3 getProducts_page_rows [of db params r] show ?thesis by blast
qed

lemmas filter_simps = query_rows_def categoriesToFilter_def product_conditions_def

lemma query_rows_examples:
  "query_rows shop empty_categoryId = [widget, gadget]"
  "query_rows shop both_categories = [widget, gadget, gadget]"
  "query_rows shop tools_only = [widget, gadget]"
  "query_rows shop electronics_over_tools = [gadget]"
  by (simp_all add: filter_simps empty_categoryId_def both_categories_def tools_only_def
      electronics_over_tools_def default_params_def shop_def widget_def gadget_def)

text \<open>
  C7 as stated fails on \<open>categoryId=\<close> with no \<open>categoryIds\<close>: the parameter is
  present, no product has an association row for the empty id, and the listing holds
  every product.
\<close>

theorem category_filter_membership_counterexample:
  "parse_products_query categoryId_empty_query = Inr empty_categoryId
   \<and> categoryIds empty_categoryId = None \<and> categoryId empty_categoryId = Some []
   \<and> query_rows shop empty_categoryId = [widget, gadget]
   \<and> \<not> has_category_in shop [[]] widget \<and> \<not> has_category_in shop [[]] gadget"
proof -
  have 1: "parse_products_query categoryId_empty_query = Inr empty_categoryId"
    by (simp add: categoryId_empty_query_def empty_categoryId_def query_simps)
  have 2: "categoryIds empty_categoryId = None" "categoryId empty_categoryId = Some []"
    by (simp_all add: empty_categoryId_def default_params_def)
  have 3: "\<not> has_category_in shop [[]] widget" "\<not> has_category_in shop [[]] gadget"
    by (simp_all add: has_category_in_def shop_def widget_def gadget_def)
  from 1 2 3 query_rows_examples(1) show ?thesis by blast
qed

theorem category_filter_membership_witness:
  "categoryIds electronics_over_tools = Some [''c2'']
   \<and> categoryId electronics_over_tools = Some ''c1''
   \<and> set (query_rows shop electronics_over_tools)
       = {p \<in> set (products shop).
            product_conditions electronics_over_tools p \<and> has_category_in shop [''c2''] p}
   \<and> query_rows shop electronics_over_tools = [gadget]
   \<and> has_category_in shop [''c1''] widget \<and> \<not> has_category_in shop [''c2''] widget
   \<and> categoryIds tools_only = None \<and> categoryId tools_only = Some ''c1'' \<and> ''c1'' \<noteq> []
   \<and> set (query_rows shop tools_only)
       = {p \<in> set (products shop). product_conditions tools_only p \<and> has_category_in shop [''c1''] p}
   \<and> query_rows shop tools_only = [widget, gadget]"
proof -
  have a: "categoryIds electronics_over_tools = Some [''c2'']"
    "categoryId electronics_over_tools = Some ''c1''"
    by (simp_all add: electronics_over_tools_def default_params_def)
  have b: "categoryIds tools_only = None" "categoryId tools_only = Some ''c1''" "''c1'' \<noteq> []"
    by (simp_all add: tools_only_def default_params_def)
  have c: "has_category_in shop [''c1''] widget" "\<not> has_category_in shop [''c2''] widget"
    by (simp_all add: has_category_in_def shop_def widget_def)
  from category_filter_membership [where params = electronics_over_tools and c = "''c2''"
      and cs = "[]" and db = shop] a
  have d: "set (query_rows shop electronics_over_tools)
       = {p \<in> set (products shop).
            product_conditions electronics_over_tools p \<and> has_category_in shop [''c2''] p}"
    by blast
  from category_filter_membership [where params = tools_only and c' = "''c1''" and db = shop] b
  have e: "set (query_rows shop tools_only)
       = {p \<in> set (products shop). product_conditions tools_only p \<and> has_category_in shop [''c1''] p}"
    by blast
  from a b c d e query_rows_examples(3,4) show ?thesis by blast
qed

section \<open>Rows of a product with several matching categories\<close>

lemma parse_categoryIds_c1_c2:
  "parse_products_query categoryIds_c1_c2_query = Inr both_categories"
  by (simp add: categoryIds_c1_c2_query_def both_categories_def query_simps trim_def
      isWhiteSpace_def)

lemma both_categories_fields:
  "page both_categories = Some (Fin 1)" "limit both_categories = Some (Fin 10)"
  "sortBy both_categories = Some ''createdAt''" "sortOrder both_categories = Some ''desc''"
  by (simp_all add: both_categories_def default_params_def)

lemma count_wgg: "count_distinct_id [widget, gadget, gadget] = 2"
  by (simp add: count_distinct_id_def widget_def gadget_def)

lemma getProducts_both_categories: "getProducts shop both_categories (Inr listing_wgg)"
  unfolding listing_wgg_def
proof (rule getProductsI [where col = Col_createdAt and l = 10 and off = 0
        and ordered = "[widget, gadget, gadget]"])
  show "order_by Col_createdAt (or_default (sortOrder both_categories) ''desc'' = ''asc'')
          (query_rows shop both_categories) [widget, gadget, gadget]"
    by (simp add: query_rows_examples order_by_def dir_le_def widget_def gadget_def)
qed (simp_all add: both_categories_fields or_default_def sortColumn_def first_page attached_shop
      query_rows_examples count_wgg)

lemma both_categories_always_twice:
  assumes "getProducts shop both_categories (Inr r)"
  shows "\<not> distinct (map pwc_product (res_products r))"
proof -
  from assms obtain col l off ordered where o:
    "row_count (or_default (limit both_categories) (Fin 10)) = Inr l"
    "row_count (js_mul (js_sub (or_default (page both_categories) (Fin 1)) (Fin 1))
           (or_default (limit both_categories) (Fin 10))) = Inr off"
    "order_by col (or_default (sortOrder both_categories) ''desc'' = ''asc'')
       (query_rows shop both_categories) ordered"
    "list_all2 (attached shop) (take l (drop off ordered)) (res_products r)"
    by (auto elim!: getProducts_Inr)
  from o(1,2) have "l = 10" "off = 0"
    by (simp_all add: both_categories_fields or_default_def first_page)
  moreover from o(3) have m: "mset ordered = mset [widget, gadget, gadget]"
    by (simp add: order_by_def query_rows_examples)
  moreover from m have "length ordered = 3"
    using mset_eq_length by fastforce
  ultimately have "map pwc_product (res_products r) = ordered"
    using attached_products [OF o(4)] by simp
  moreover have "\<not> distinct ordered"
  proof
    assume "distinct ordered"
    then have "count (mset ordered) gadget = (if gadget \<in> set ordered then 1 else 0)"
      by (simp add: distinct_count_atmost_1)
    moreover from m have "count (mset ordered) gadget = 2"
      by (simp add: widget_def gadget_def)
    ultimately show False
      by (simp split: if_splits)
  qed
  ultimately show ?thesis by simp
qed

text \<open>
  C1 at \<open>categoryIds=c1,c2\<close> on the example store, where the gadget is in both
  categories: the rows of the listing hold the gadget twice while the total counts it
  once, and no outcome of \<open>getProducts\<close> has a page without the repetition. (The total
  is right for every store and filter-set: \<open>getProducts_total_distinct\<close>.)
\<close>

theorem getProducts_duplicate_rows:
  "parse_products_query categoryIds_c1_c2_query = Inr both_categories
   \<and> query_rows shop both_categories = [widget, gadget, gadget]
   \<and> getProducts shop both_categories (Inr listing_wgg)
   \<and> map pwc_product (res_products listing_wgg) = [widget, gadget, gadget]
   \<and> res_total listing_wgg = 2
   \<and> \<not> (\<exists>r. getProducts shop both_categories (Inr r)
            \<and> distinct (map pwc_product (res_products r)))"
proof -
  have "map pwc_product (res_products listing_wgg) = [widget, gadget, gadget]"
    "res_total listing_wgg = 2"
    by (simp_all add: listing_wgg_def widget_with_def gadget_with_def)
  with parse_categoryIds_c1_c2 query_rows_examples(2) getProducts_both_categories
    both_categories_always_twice
  show ?thesis by blast
qed

end
